theory Spec2Isabelle
  imports Main "HOL-Library.Multiset"
begin

chapter \<open>The programs\<close>

section \<open>Values of the platform\<close>

text \<open>
  Values the code carries without looking inside (\<^verbatim>\<open>any\<close>): what \<^verbatim>\<open>JSON.parse\<close> returns,
  sample rows, rules, configuration objects. A string is its list of characters, each a
  code unit below 256. An object is the list of its keys and values in the order the
  object enumerates them. Numbers are integers.
\<close>

datatype json =
    JNull
  | JBool bool
  | JNum int
  | JStr string
  | JArr "json list"
  | JObj "(string \<times> json) list"

text \<open>The decimal text of a count or an index, all its digits.\<close>

definition digit_char :: "nat \<Rightarrow> char" where
  "digit_char d = char_of (48 + d)"

fun show_nat :: "nat \<Rightarrow> string" where
  "show_nat n = (if n < 10 then [digit_char n] else show_nat (n div 10) @ [digit_char (n mod 10)])"

text \<open>
  The text of a number in a template literal (\<^verbatim>\<open>Number::toString\<close>). A number of the platform
  is a double: the integer \<open>n\<close> stands for the double nearest to it, a tie going to the even
  mantissa, which is \<open>n\<close> itself below \<open>2^53\<close>. The text has the fewest significant digits
  that read back as that double (of two such values the nearer one, of two equally near
  the even one); it is written in full when it has at most 21 digits and in exponent form
  beyond, and a number too large for a double prints as \<^verbatim>\<open>Infinity\<close>.
\<close>

function decimal :: "int \<Rightarrow> string" where
  "decimal n = (if n < 10 then [digit_char (nat n)] else decimal (n div 10) @ [digit_char (nat (n mod 10))])"
  by pat_completeness auto
termination
  by (relation "measure nat") auto

function binary_digits :: "int \<Rightarrow> nat" where
  "binary_digits n = (if n \<le> 0 then 0 else Suc (binary_digits (n div 2)))"
  by pat_completeness auto
termination
  by (relation "measure nat") auto

definition nearest_double :: "int \<Rightarrow> int" where
  "nearest_double n =
     (let bits = binary_digits n in
      if bits \<le> 53 then n
      else
        (let unit = 2 ^ (bits - 53);
             mantissa = n div unit;
             rest = n mod unit in
         if unit < 2 * rest \<or> (unit = 2 * rest \<and> odd mantissa)
         then (mantissa + 1) * unit else mantissa * unit))"

definition reads_back :: "int \<Rightarrow> nat \<Rightarrow> int option" where
  "reads_back x k =
     (let step = 10 ^ (length (decimal x) - k);
          below = (x div step) * step;
          above = below + step;
          below_ok = (nearest_double below = x);
          above_ok = (nearest_double above = x) in
      if below_ok \<and> above_ok
      then Some (if x - below < above - x \<or> (x - below = above - x \<and> even (below div step))
                 then below else above)
      else if below_ok then Some below
      else if above_ok then Some above
      else None)"

definition shortest_decimal :: "int \<Rightarrow> int" where
  "shortest_decimal x =
     (case List.map_filter (reads_back x) [1 ..< Suc (length (decimal x))] of
        [] \<Rightarrow> x
      | v # vs \<Rightarrow> v)"

definition strip_zeros :: "string \<Rightarrow> string" where
  "strip_zeros ds = rev (dropWhile (\<lambda>c. c = CHR ''0'') (rev ds))"

definition number_text :: "int \<Rightarrow> string" where
  "number_text n =
     (if n < 2 ^ 53 then decimal n
      else
        (let x = nearest_double n in
         if 2 ^ 1024 \<le> x then ''Infinity''
         else
           (let digits = decimal (shortest_decimal x);
                significant = strip_zeros digits in
            if length digits \<le> 21 then digits
            else take 1 significant
                 @ (if length significant = 1 then [] else CHR ''.'' # drop 1 significant)
                 @ ''e+'' @ show_nat (length digits - 1))))"

definition show_int :: "int \<Rightarrow> string" where
  "show_int i = (if i < 0 then CHR ''-'' # number_text (- i) else number_text i)"

section \<open>The AI suggestion adapter: convertMappingsToCanvas\<close>

text \<open>
  The edge function \<^verbatim>\<open>generate-ai-mapping\<close> turns the oracle's list of suggestions into
  canvas nodes and edges. \<^verbatim>\<open>MappingSuggestion\<close> is a tagged union on \<^verbatim>\<open>mapping_type\<close>;
  every variant carries \<^verbatim>\<open>target_field\<close> first. The list is parsed JSON, so an entry can
  carry a \<^verbatim>\<open>mapping_type\<close> outside the union: \<open>Unrecognized tf mt\<close> is such an entry, one
  that reaches the \<^verbatim>\<open>default\<close> arm of the switch. The separator of a concat entry is
  read with \<^verbatim>\<open>??\<close>, so it is optional here.
\<close>

datatype MappingSuggestion =
    Direct string string
  | Static string string
  | Conditional string "(string \<times> string) list"
  | Table string string "(string \<times> string) list"
  | DateConversion string string string
  | Concat string "string list" "string option"
  | Split string string string int
  | Skip string
  | Unrecognized string string

fun target_field :: "MappingSuggestion \<Rightarrow> string" where
  "target_field (Direct tf sf) = tf"
| "target_field (Static tf v) = tf"
| "target_field (Conditional tf cs) = tf"
| "target_field (Table tf sf tb) = tf"
| "target_field (DateConversion tf sf fm) = tf"
| "target_field (Concat tf sfs sep) = tf"
| "target_field (Split tf sf dl ix) = tf"
| "target_field (Skip tf) = tf"
| "target_field (Unrecognized tf mt) = tf"

text \<open>
  A \<^verbatim>\<open>CanvasNode\<close> is \<^verbatim>\<open>{id, type, ...}\<close>; the constructor is the node's \<^verbatim>\<open>type\<close> string,
  its first argument the \<^verbatim>\<open>id\<close>, its second the \<^verbatim>\<open>label\<close>, the rest the other keys in
  the order of the object literal.
\<close>

datatype CanvasNode =
    TargetNode string string string
  | SourceNode string string string
  | StaticValueNode string string string
  | IfThenNode string string "(string \<times> string) list"
  | ConversionMappingNode string string string "(string \<times> string) list"
  | TransformNode string string string string string bool
  | ConcatTransformNode string string "string list" string
  | SplitterTransformNode string string string string int

fun node_id :: "CanvasNode \<Rightarrow> string" where
  "node_id (TargetNode i l f) = i"
| "node_id (SourceNode i l f) = i"
| "node_id (StaticValueNode i l v) = i"
| "node_id (IfThenNode i l cs) = i"
| "node_id (ConversionMappingNode i l sf tb) = i"
| "node_id (TransformNode i l sf tt fm ad) = i"
| "node_id (ConcatTransformNode i l sfs sep) = i"
| "node_id (SplitterTransformNode i l sf dl ix) = i"

datatype CanvasEdgeType = EdgeT | DirectT

record CanvasEdge =
  edge_type :: CanvasEdgeType
  edge_from :: string
  edge_to :: string

text \<open>\<^verbatim>\<open>Array.prototype.join\<close> on strings.\<close>

fun join :: "string \<Rightarrow> string list \<Rightarrow> string" where
  "join sep [] = []"
| "join sep [x] = x"
| "join sep (x # y # ys) = x @ sep @ join sep (y # ys)"

text \<open>
  The three mutable locals of the function, and the console: the only console call is the
  \<^verbatim>\<open>console.warn\<close> of the default arm, recorded with the offending \<^verbatim>\<open>mapping_type\<close>.
\<close>

record conv_state =
  nodes :: "CanvasNode list"
  edges :: "CanvasEdge list"
  addedNodeIds :: "string set"
  warnings :: "string list"

definition push_node :: "CanvasNode \<Rightarrow> conv_state \<Rightarrow> conv_state" where
  "push_node n st = st\<lparr>nodes := nodes st @ [n], addedNodeIds := insert (node_id n) (addedNodeIds st)\<rparr>"

definition push_edge :: "CanvasEdgeType \<Rightarrow> string \<Rightarrow> string \<Rightarrow> conv_state \<Rightarrow> conv_state" where
  "push_edge t f g st = st\<lparr>edges := edges st @ [\<lparr>edge_type = t, edge_from = f, edge_to = g\<rparr>]\<rparr>"

text \<open>Lines 75 to 84: the target node of the entry, pushed unless its id is known.\<close>

definition addTarget :: "string \<Rightarrow> conv_state \<Rightarrow> conv_state" where
  "addTarget tf st =
     (let targetId = ''target_'' @ tf in
      if targetId \<in> addedNodeIds st then st else push_node (TargetNode targetId tf tf) st)"

text \<open>Lines 89 to 101: \<^verbatim>\<open>addSource\<close> returns the id; the state is returned beside it.\<close>

definition addSource :: "string \<Rightarrow> conv_state \<Rightarrow> string \<times> conv_state" where
  "addSource field st =
     (let sourceId = ''source_'' @ field in
      (sourceId, if sourceId \<in> addedNodeIds st then st else push_node (SourceNode sourceId field field) st))"

text \<open>Lines 199 to 206: the code after the switch, reached by the arms that \<^verbatim>\<open>break\<close>.\<close>

definition finish :: "string \<Rightarrow> CanvasNode \<Rightarrow> conv_state \<Rightarrow> conv_state" where
  "finish targetId node st =
     push_edge EdgeT (node_id node) targetId
       (if node_id node \<in> addedNodeIds st then st else push_node node st)"

text \<open>The loop of the concat arm, lines 169 to 172.\<close>

fun concat_sources :: "string \<Rightarrow> string list \<Rightarrow> conv_state \<Rightarrow> conv_state" where
  "concat_sources nodeId [] st = st"
| "concat_sources nodeId (field # rest) st =
     (let (from, st1) = addSource field st in
      concat_sources nodeId rest (push_edge EdgeT from nodeId st1))"

text \<open>The switch, lines 103 to 197, on a state where the target node is already there.\<close>

fun switch_mapping :: "MappingSuggestion \<Rightarrow> conv_state \<Rightarrow> conv_state" where
  "switch_mapping (Direct tf sf) st =
     (let (from, st1) = addSource sf st in push_edge DirectT from (''target_'' @ tf) st1)"
| "switch_mapping (Static tf v) st =
     (let nodeId = ''static_'' @ tf in
      finish (''target_'' @ tf) (StaticValueNode nodeId (''Static: '' @ v) v) st)"
| "switch_mapping (Conditional tf cs) st =
     (let nodeId = ''if_'' @ tf in
      finish (''target_'' @ tf) (IfThenNode nodeId ''Conditional'' cs) st)"
| "switch_mapping (Table tf sf tb) st =
     (let nodeId = ''convert_'' @ tf;
          (from, st1) = addSource sf st;
          node = ConversionMappingNode nodeId (''Convert: '' @ sf) sf tb in
      finish (''target_'' @ tf) node (push_edge EdgeT from nodeId st1))"
| "switch_mapping (DateConversion tf sf fm) st =
     (let nodeId = ''date_'' @ tf;
          (from, st1) = addSource sf st;
          node = TransformNode nodeId (''Date: '' @ fm) sf ''dateFormat'' fm True in
      finish (''target_'' @ tf) node (push_edge EdgeT from nodeId st1))"
| "switch_mapping (Concat tf sfs sep) st =
     (let nodeId = ''concat_'' @ tf;
          node = ConcatTransformNode nodeId (''Concat: '' @ join '' + '' sfs) sfs
                   (case sep of None \<Rightarrow> '' '' | Some s \<Rightarrow> s) in
      finish (''target_'' @ tf) node (concat_sources nodeId sfs st))"
| "switch_mapping (Split tf sf dl ix) st =
     (let nodeId = ''split_'' @ tf;
          (from, st1) = addSource sf st;
          node = SplitterTransformNode nodeId (''Split: '' @ sf @ ''['' @ show_int ix @ '']'') sf dl ix in
      finish (''target_'' @ tf) node (push_edge EdgeT from nodeId st1))"
| "switch_mapping (Skip tf) st = st"
| "switch_mapping (Unrecognized tf mt) st = st\<lparr>warnings := warnings st @ [mt]\<rparr>"

definition process_mapping :: "conv_state \<Rightarrow> MappingSuggestion \<Rightarrow> conv_state" where
  "process_mapping st m = switch_mapping m (addTarget (target_field m) st)"

definition init_state :: conv_state where
  "init_state = \<lparr>nodes = [], edges = [], addedNodeIds = {}, warnings = []\<rparr>"

definition run_mappings :: "MappingSuggestion list \<Rightarrow> conv_state" where
  "run_mappings mappings = foldl process_mapping init_state mappings"

definition convertMappingsToCanvas :: "MappingSuggestion list \<Rightarrow> CanvasNode list \<times> CanvasEdge list" where
  "convertMappingsToCanvas mappings = (let st = run_mappings mappings in (nodes st, edges st))"

text \<open>Names used to state what a skipped entry leaves behind.\<close>

definition skipped :: "MappingSuggestion \<Rightarrow> bool" where
  "skipped s = (case s of Skip tf \<Rightarrow> True | Unrecognized tf mt \<Rightarrow> True | _ \<Rightarrow> False)"

definition target_node :: "string \<Rightarrow> CanvasNode" where
  "target_node tf = TargetNode (''target_'' @ tf) tf tf"

definition add_if_new :: "CanvasNode \<Rightarrow> conv_state \<Rightarrow> conv_state" where
  "add_if_new n st = (if node_id n \<in> addedNodeIds st then st else push_node n st)"

definition targets_present :: "conv_state \<Rightarrow> bool" where
  "targets_present st = (\<forall>tf. ''target_'' @ tf \<in> addedNodeIds st \<longrightarrow> target_node tf \<in> set (nodes st))"

definition same_but_target :: "string \<Rightarrow> conv_state \<Rightarrow> conv_state \<Rightarrow> bool" where
  "same_but_target tf st1 st2 =
     (edges st1 = edges st2 \<and>
      addedNodeIds st1 = insert (''target_'' @ tf) (addedNodeIds st2) \<and>
      removeAll (target_node tf) (nodes st1) = removeAll (target_node tf) (nodes st2) \<and>
      target_node tf \<in> set (nodes st1))"

section \<open>The AI suggestion adapter: layout and the request handler\<close>

fun node_type :: "CanvasNode \<Rightarrow> string" where
  "node_type (TargetNode i l f) = ''TargetNode''"
| "node_type (SourceNode i l f) = ''SourceNode''"
| "node_type (StaticValueNode i l v) = ''StaticValueNode''"
| "node_type (IfThenNode i l cs) = ''IfThenNode''"
| "node_type (ConversionMappingNode i l sf tb) = ''ConversionMappingNode''"
| "node_type (TransformNode i l sf tt fm ad) = ''TransformNode''"
| "node_type (ConcatTransformNode i l sfs sep) = ''ConcatTransformNode''"
| "node_type (SplitterTransformNode i l sf dl ix) = ''SplitterTransformNode''"

text \<open>
  \<^verbatim>\<open>calculateLayout\<close>: a record from node id to position, filled by three \<^verbatim>\<open>forEach\<close> loops
  (sources at x = 100, the others at x = 450, targets at x = 800), row pitch 120.
\<close>

type_synonym layout = "string \<Rightarrow> (int \<times> int) option"

fun place_column :: "int \<Rightarrow> nat \<Rightarrow> CanvasNode list \<Rightarrow> layout \<Rightarrow> layout" where
  "place_column x i [] lay = lay"
| "place_column x i (n # ns) lay = place_column x (Suc i) ns (lay(node_id n \<mapsto> (x, 100 + int i * 120)))"

definition calculateLayout :: "CanvasNode list \<Rightarrow> layout" where
  "calculateLayout ns =
     (let sourceNodes = filter (\<lambda>n. node_type n = ''SourceNode'') ns;
          targetNodes = filter (\<lambda>n. node_type n = ''TargetNode'') ns;
          transformNodes = filter (\<lambda>n. node_type n \<notin> set [''TargetNode'', ''SourceNode'']) ns in
      place_column 800 0 targetNodes
        (place_column 450 0 transformNodes
          (place_column 100 0 sourceNodes Map.empty)))"

text \<open>
  \<^verbatim>\<open>applyTemplate\<close>. The \<^verbatim>\<open>data\<close> of a flow node is \<^verbatim>\<open>{label: ..., ...n}\<close>; every canvas node
  has a \<^verbatim>\<open>label\<close> key, which the spread writes over the computed one, so \<open>fn_data\<close> is the
  canvas node itself.
\<close>

record FlowNode =
  fn_id :: string
  fn_type :: string
  fn_position :: "int \<times> int"
  fn_data :: CanvasNode

record FlowEdge =
  fe_id :: string
  fe_source :: string
  fe_target :: string
  fe_type :: string

definition flow_node :: "layout \<Rightarrow> CanvasNode \<Rightarrow> FlowNode" where
  "flow_node lay n =
     \<lparr>fn_id = node_id n, fn_type = node_type n,
      fn_position = (case lay (node_id n) of Some p \<Rightarrow> p | None \<Rightarrow> (100, 100)),
      fn_data = n\<rparr>"

definition flow_edge :: "CanvasEdge \<times> nat \<Rightarrow> FlowEdge" where
  "flow_edge ei =
     (let e = fst ei; idx = snd ei in
      \<lparr>fe_id = edge_from e @ ''-'' @ edge_to e @ ''-'' @ show_nat idx,
       fe_source = edge_from e, fe_target = edge_to e, fe_type = ''smoothstep''\<rparr>)"

definition applyTemplate :: "CanvasNode list \<times> CanvasEdge list \<Rightarrow> FlowNode list \<times> FlowEdge list" where
  "applyTemplate canvas =
     (let lay = calculateLayout (fst canvas) in
      (map (flow_node lay) (fst canvas),
       map flow_edge (zip (snd canvas) [0 ..< length (snd canvas)])))"

subsection \<open>Extracting the array from the oracle's text\<close>

text \<open>
  \<^verbatim>\<open>indexOf\<close> and \<^verbatim>\<open>lastIndexOf\<close> of a one-character string: the index of the first (last)
  occurrence, or -1. \<^verbatim>\<open>slice\<close> with JavaScript's treatment of negative and out-of-range
  arguments. A string is its list of characters.
\<close>

fun indexOf :: "char \<Rightarrow> string \<Rightarrow> int" where
  "indexOf c [] = - 1"
| "indexOf c (x # xs) =
     (if x = c then 0 else (let i = indexOf c xs in if i < 0 then - 1 else i + 1))"

definition lastIndexOf :: "char \<Rightarrow> string \<Rightarrow> int" where
  "lastIndexOf c s =
     (let i = indexOf c (rev s) in if i < 0 then - 1 else int (length s) - 1 - i)"

definition slice :: "string \<Rightarrow> int \<Rightarrow> int \<Rightarrow> string" where
  "slice s a b =
     (let len = int (length s);
          from = (if a < 0 then max (len + a) 0 else min a len);
          to = (if b < 0 then max (len + b) 0 else min b len) in
      take (nat (to - from)) (drop (nat from) s))"

text \<open>Lines 392 to 394.\<close>

definition jsonString :: "string \<Rightarrow> string" where
  "jsonString raw =
     (let jsonStart = indexOf CHR ''['' raw;
          jsonEnd = lastIndexOf CHR '']'' raw + 1 in
      slice raw jsonStart jsonEnd)"

subsection \<open>The parsed reply\<close>

text \<open>
  \<^verbatim>\<open>JSON.parse\<close> returns a value of any shape, which the handler passes on as
  \<^verbatim>\<open>MappingSuggestion[]\<close> unchecked. \<^verbatim>\<open>convertMappingsToCanvas\<close> throws on a value that is not
  of that type in four ways: the loop \<^verbatim>\<open>for (const map of mappings)\<close> on a value that is not
  iterable (an array and a string are), the read \<^verbatim>\<open>map.target_field\<close> on the entry \<^verbatim>\<open>null\<close>, the
  call \<^verbatim>\<open>map.source_fields.join\<close> of the concat arm on an entry whose \<^verbatim>\<open>source_fields\<close> is not
  an array, and a template literal or a \<^verbatim>\<open>join\<close> on a value that has no text. Every other read
  of a missing key yields \<^verbatim>\<open>undefined\<close>, and neither \<^verbatim>\<open>applyTemplate\<close> nor \<^verbatim>\<open>calculateLayout\<close>
  throws, whatever the nodes. The entries are visited in order, so the exception is that of
  the first entry that throws.
\<close>

datatype thrown =
    NotIterable json
  | ReadOfNull
  | NoJoin "json option"
  | NoPrimitive json

text \<open>
  The values without a text: an object with a key \<^verbatim>\<open>toString\<close> of its own, which parsed JSON
  never makes a function, so that the conversion finds no method returning a primitive;
  and an array holding such a value, the text of an array being the \<^verbatim>\<open>join\<close> of its
  elements.
\<close>

fun unprintable :: "json \<Rightarrow> bool" where
  "unprintable (JObj kvs) = (map_of kvs ''toString'' \<noteq> None)"
| "unprintable (JArr xs) = list_ex unprintable xs"
| "unprintable v = False"

definition first_unprintable :: "json option list \<Rightarrow> thrown option" where
  "first_unprintable vs =
     (case List.map_filter
             (\<lambda>v. case v of None \<Rightarrow> None
                    | Some j \<Rightarrow> if unprintable j then Some (NoPrimitive j) else None) vs of
        [] \<Rightarrow> None
      | t # ts \<Rightarrow> Some t)"

text \<open>
  The values an entry has printed, in the order of the code: \<^verbatim>\<open>target_field\<close> for the id of
  the target node, then those of its arm of the switch (the source field in \<^verbatim>\<open>addSource\<close>,
  the values of the label, the \<^verbatim>\<open>mapping_type\<close> in the warning of the default arm). The concat
  arm joins its source fields first.
\<close>

definition printed :: "(string \<Rightarrow> json option) \<Rightarrow> json option list" where
  "printed get =
     (let mt = get ''mapping_type'' in
      get ''target_field'' #
      (if mt = Some (JStr ''direct'') then [get ''source_field'']
       else if mt = Some (JStr ''static'') then [get ''value'']
       else if mt = Some (JStr ''conditional'') then []
       else if mt = Some (JStr ''table'') then [get ''source_field'']
       else if mt = Some (JStr ''date_conversion'') then [get ''source_field'', get ''format'']
       else if mt = Some (JStr ''split'') then [get ''source_field'', get ''index'']
       else if mt = Some (JStr ''skip'') then []
       else [mt]))"

fun entry_throws :: "json \<Rightarrow> thrown option" where
  "entry_throws JNull = Some ReadOfNull"
| "entry_throws (JObj kvs) =
     (if map_of kvs ''mapping_type'' = Some (JStr ''concat'')
      then (case first_unprintable [map_of kvs ''target_field''] of
              Some exception \<Rightarrow> Some exception
            | None \<Rightarrow>
                (case map_of kvs ''source_fields'' of
                   Some (JArr sfs) \<Rightarrow> first_unprintable (map Some sfs)
                 | v \<Rightarrow> Some (NoJoin v)))
      else first_unprintable (printed (map_of kvs)))"
| "entry_throws entry = None"

fun first_throw :: "json \<Rightarrow> thrown option" where
  "first_throw (JArr entries) =
     (case List.map_filter entry_throws entries of [] \<Rightarrow> None | t # ts \<Rightarrow> Some t)"
| "first_throw (JStr s) = None"
| "first_throw v = Some (NotIterable v)"

text \<open>
  The parsed value read at the type the source declares, \<open>None\<close> when it is not of that
  type. An entry is an object with the strings \<^verbatim>\<open>target_field\<close> and \<^verbatim>\<open>mapping_type\<close> and the
  keys its arm of the switch reads, other keys being ignored; the separator of a concat
  entry may be missing or \<^verbatim>\<open>null\<close>; a \<^verbatim>\<open>mapping_type\<close> outside the union is kept as it is.
\<close>

fun as_string :: "json option \<Rightarrow> string option" where
  "as_string (Some (JStr s)) = Some s"
| "as_string v = None"

fun as_int :: "json option \<Rightarrow> int option" where
  "as_int (Some (JNum i)) = Some i"
| "as_int v = None"

definition all_of :: "'a option list \<Rightarrow> 'a list option" where
  "all_of xs = (if list_all (\<lambda>x. x \<noteq> None) xs then Some (List.map_filter id xs) else None)"

fun as_strings :: "json option \<Rightarrow> string list option" where
  "as_strings (Some (JArr xs)) = all_of (map (\<lambda>x. as_string (Some x)) xs)"
| "as_strings v = None"

fun as_table :: "json option \<Rightarrow> (string \<times> string) list option" where
  "as_table (Some (JObj kvs)) =
     all_of (map (\<lambda>kv. map_option (\<lambda>v. (fst kv, v)) (as_string (Some (snd kv)))) kvs)"
| "as_table v = None"

fun as_condition :: "json \<Rightarrow> (string \<times> string) option" where
  "as_condition (JObj kvs) =
     (case (as_string (map_of kvs ''condition''), as_string (map_of kvs ''value'')) of
        (Some c, Some v) \<Rightarrow> Some (c, v)
      | other \<Rightarrow> None)"
| "as_condition v = None"

fun as_conditions :: "json option \<Rightarrow> (string \<times> string) list option" where
  "as_conditions (Some (JArr xs)) = all_of (map as_condition xs)"
| "as_conditions v = None"

fun as_separator :: "json option \<Rightarrow> string option option" where
  "as_separator None = Some None"
| "as_separator (Some JNull) = Some None"
| "as_separator (Some (JStr s)) = Some (Some s)"
| "as_separator v = None"

definition read_variant :: "(string \<Rightarrow> json option) \<Rightarrow> string \<Rightarrow> string \<Rightarrow> MappingSuggestion option" where
  "read_variant get tf mt =
     (if mt = ''direct'' then map_option (Direct tf) (as_string (get ''source_field''))
      else if mt = ''static'' then map_option (Static tf) (as_string (get ''value''))
      else if mt = ''conditional'' then map_option (Conditional tf) (as_conditions (get ''conditions''))
      else if mt = ''table'' then
        (case (as_string (get ''source_field''), as_table (get ''table'')) of
           (Some sf, Some tb) \<Rightarrow> Some (Table tf sf tb)
         | other \<Rightarrow> None)
      else if mt = ''date_conversion'' then
        (case (as_string (get ''source_field''), as_string (get ''format'')) of
           (Some sf, Some fm) \<Rightarrow> Some (DateConversion tf sf fm)
         | other \<Rightarrow> None)
      else if mt = ''concat'' then
        (case (as_strings (get ''source_fields''), as_separator (get ''separator'')) of
           (Some sfs, Some sep) \<Rightarrow> Some (Concat tf sfs sep)
         | other \<Rightarrow> None)
      else if mt = ''split'' then
        (case (as_string (get ''source_field''), as_string (get ''delimiter''), as_int (get ''index'')) of
           (Some sf, Some dl, Some ix) \<Rightarrow> Some (Split tf sf dl ix)
         | other \<Rightarrow> None)
      else if mt = ''skip'' then Some (Skip tf)
      else Some (Unrecognized tf mt))"

fun read_entry :: "json \<Rightarrow> MappingSuggestion option" where
  "read_entry (JObj kvs) =
     (case (as_string (map_of kvs ''target_field''), as_string (map_of kvs ''mapping_type'')) of
        (Some tf, Some mt) \<Rightarrow> read_variant (map_of kvs) tf mt
      | other \<Rightarrow> None)"
| "read_entry v = None"

fun read_suggestions :: "json \<Rightarrow> MappingSuggestion list option" where
  "read_suggestions (JArr entries) = all_of (map read_entry entries)"
| "read_suggestions v = None"

subsection \<open>The answer\<close>

text \<open>
  The response of the handler from line 389 on, as a function of the text \<open>raw\<close> of the
  oracle's reply. \<^verbatim>\<open>JSON.parse\<close> is the platform's: it is the parameter \<open>parse\<close>, which
  returns the message of the exception it throws (\<open>Inl\<close>) or the parsed value. The
  \<^verbatim>\<open>catch\<close> block logs the exception, that of the parser or one thrown later, and answers
  it with status 500 and the body \<^verbatim>\<open>{error: message}\<close>; the text of the message of an
  exception of the engine is the parameter \<open>message_of\<close>. The other answer has status 200
  and the body \<^verbatim>\<open>{mappings, canvas}\<close>, \<^verbatim>\<open>mappings\<close> being the parsed value as it is. Its
  canvas is described for a parsed value of the declared type; for any other value that
  lets the handler through (an entry without a \<^verbatim>\<open>target_field\<close>, say, gives the node
  \<^verbatim>\<open>target_undefined\<close>) the canvas is \<open>None\<close>, not described here.
\<close>

datatype response =
    Success json "(FlowNode list \<times> FlowEdge list) option"
  | Failure nat string

definition respond :: "(string \<Rightarrow> string + json) \<Rightarrow> (thrown \<Rightarrow> string) \<Rightarrow> string \<Rightarrow> response" where
  "respond parse message_of raw =
     (case parse (jsonString raw) of
        Inl message \<Rightarrow> Failure 500 message
      | Inr parsed \<Rightarrow>
          (case first_throw parsed of
             Some exception \<Rightarrow> Failure 500 (message_of exception)
           | None \<Rightarrow>
               Success parsed
                 (map_option (\<lambda>mappings. applyTemplate (convertMappingsToCanvas mappings))
                    (read_suggestions parsed))))"

text \<open>
  A parser and engine messages for examples: the parser knows two texts, the array of one
  direct suggestion and the array \<^verbatim>\<open>[null]\<close>, and rejects every other text.
\<close>

definition sample_parse :: "string \<Rightarrow> string + json" where
  "sample_parse s =
     (if s = ''[{\"target_field\":\"name\",\"mapping_type\":\"direct\",\"source_field\":\"naam\"}]''
      then Inr (JArr [JObj [(''target_field'', JStr ''name''), (''mapping_type'', JStr ''direct''),
                            (''source_field'', JStr ''naam'')]])
      else if s = ''[null]'' then Inr (JArr [JNull])
      else Inl ''Unexpected end of JSON input'')"

fun sample_message_of :: "thrown \<Rightarrow> string" where
  "sample_message_of (NotIterable v) = ''mappings is not iterable''"
| "sample_message_of ReadOfNull = ''Cannot read properties of null''"
| "sample_message_of (NoJoin v) = ''map.source_fields.join is not a function''"
| "sample_message_of (NoPrimitive v) = ''Cannot convert object to primitive value''"

section \<open>The versioning and activation store: MappingService\<close>

text \<open>
  A row of the \<^verbatim>\<open>mappings\<close> table. The columns are those the service writes and filters on;
  \<^verbatim>\<open>category\<close>, \<^verbatim>\<open>description\<close>, \<^verbatim>\<open>tags\<close>, \<^verbatim>\<open>transform_type\<close> and \<^verbatim>\<open>mapping_group_id\<close> can be
  SQL \<^verbatim>\<open>NULL\<close> (\<open>None\<close>). The graph of the UI configuration and the execution configuration
  are stored as they are given: their types are the parameters \<open>'g\<close> and \<open>'x\<close>.
\<close>

record 'g SavedMappingConfig =
  cfg_name :: string
  cfg_version :: string
  cfg_category :: string
  cfg_description :: "string option"
  cfg_tags :: "string list"
  cfg_graph :: 'g
  cfg_author :: string
  cfg_created_at :: string
  cfg_created_by :: string

record ('g, 'x) mapping_row =
  row_id :: string
  user_id :: string
  row_name :: string
  version :: string
  category :: "string option"
  description :: "string option"
  tags :: "string list option"
  transform_type :: "string option"
  mapping_group_id :: "string option"
  ui_config :: "'g SavedMappingConfig"
  execution_config :: "'x option"
  is_active :: bool
  created_at :: string
  updated_at :: string

text \<open>
  What the service cannot decide by itself: the value of \<^verbatim>\<open>crypto.randomUUID()\<close>, the clock,
  the id the table gives a new row, the answer of the \<^verbatim>\<open>get_next_version\<close> procedure, and
  for each call to the persistence collaborator whether it reports an error (with its
  message). The two queries whose error the source does not read yield no data when they
  fail.
\<close>

record store_env =
  randomUUID :: string
  now :: string
  new_row_id :: string
  get_next_version :: "string \<Rightarrow> string \<Rightarrow> string \<Rightarrow> string + string"
  existing_query_fails :: bool
  conflict_query_fails :: bool
  deactivate_error :: "string option"
  insert_error :: "string option"
  activate_error :: "string option"

text \<open>The errors thrown, each with the message of the source.\<close>

datatype store_error =
    AuthenticationRequired string
  | NameConflict string
  | NextVersionFailed string
  | DeactivateFailed string
  | SaveFailed string
  | ActivateFailed string

fun error_message :: "store_error \<Rightarrow> string" where
  "error_message (AuthenticationRequired action) =
     ''User authentication is required to '' @ action @ '' mappings''"
| "error_message (NameConflict n) =
     ''A mapping with the name \"'' @ n @ ''\" already exists. Please choose a different name.''"
| "error_message (NextVersionFailed m) = ''Failed to get next version: '' @ m"
| "error_message (DeactivateFailed m) = ''Failed to deactivate previous versions: '' @ m"
| "error_message (SaveFailed m) = ''Failed to save mapping: '' @ m"
| "error_message (ActivateFailed m) = ''Failed to activate mapping version: '' @ m"

text \<open>
  \<^verbatim>\<open>String.prototype.trim\<close>. Of the code units below 256, the white space and line
  terminators are tab, line feed, vertical tab, form feed, carriage return, space and the
  no-break space.
\<close>

definition is_space :: "char \<Rightarrow> bool" where
  "is_space c = (c \<in> set [CHR '' '', CHR 0x09, CHR 0x0A, CHR 0x0B, CHR 0x0C, CHR 0x0D, CHR 0xA0])"

definition trim :: "string \<Rightarrow> string" where
  "trim s = rev (dropWhile is_space (rev (dropWhile is_space s)))"

text \<open>\<^verbatim>\<open>.maybeSingle()\<close>: the row when exactly one matches, no data otherwise.\<close>

fun maybeSingle :: "'a list \<Rightarrow> 'a option" where
  "maybeSingle [r] = Some r"
| "maybeSingle rs = None"

text \<open>\<^verbatim>\<open>a || b\<close> on strings that may be absent: a string is truthy when it is not empty.\<close>

definition truthy :: "string option \<Rightarrow> bool" where
  "truthy s = (case s of None \<Rightarrow> False | Some t \<Rightarrow> t \<noteq> [])"

definition or_else :: "string option \<Rightarrow> string option \<Rightarrow> string option" where
  "or_else a b = (if truthy a then a else b)"

definition or_default :: "string option \<Rightarrow> string \<Rightarrow> string" where
  "or_default a d = (case a of None \<Rightarrow> d | Some t \<Rightarrow> if t = [] then d else t)"

text \<open>
  Lines 476 to 483: the active row of this user and name that the new version inherits
  from.
\<close>

definition existing_mapping ::
  "store_env \<Rightarrow> ('g, 'x) mapping_row list \<Rightarrow> string \<Rightarrow> string \<Rightarrow> ('g, 'x) mapping_row option" where
  "existing_mapping env tbl userId name =
     (if existing_query_fails env then None
      else maybeSingle (filter (\<lambda>r. user_id r = userId \<and> row_name r = name \<and> is_active r) tbl))"

text \<open>Lines 486 to 497: the rows of this user that already carry the trimmed name.\<close>

definition name_conflict ::
  "store_env \<Rightarrow> ('g, 'x) mapping_row list \<Rightarrow> string \<Rightarrow> string \<Rightarrow> bool" where
  "name_conflict env tbl userId name =
     (\<not> conflict_query_fails env \<and>
      take 1 (filter (\<lambda>r. user_id r = userId \<and> row_name r = trim name) tbl) \<noteq> [])"

text \<open>Lines 539 to 544: the update that clears \<^verbatim>\<open>is_active\<close> in the group.\<close>

definition deactivate_group ::
  "string \<Rightarrow> string \<Rightarrow> ('g, 'x) mapping_row list \<Rightarrow> ('g, 'x) mapping_row list" where
  "deactivate_group userId gid tbl =
     map (\<lambda>r. if user_id r = userId \<and> mapping_group_id r = Some gid then r\<lparr>is_active := False\<rparr> else r) tbl"

text \<open>
  \<^verbatim>\<open>saveMapping\<close>. The arguments with a default are given after the default is applied.
  The result is the error thrown or the row returned, and the table after the call.
\<close>

definition saveMapping ::
  "store_env \<Rightarrow> string \<Rightarrow> 'g \<Rightarrow> string \<Rightarrow> string \<Rightarrow> string option \<Rightarrow> string list option \<Rightarrow>
   'x option \<Rightarrow> string option \<Rightarrow> string \<Rightarrow> ('g, 'x) mapping_row list \<Rightarrow>
   (store_error + ('g, 'x) mapping_row) \<times> ('g, 'x) mapping_row list" where
  "saveMapping env name graph userId category_arg description_arg tags_arg executionConfig
     providedVersion transformType tbl =
   (if userId = [] then (Inl (AuthenticationRequired ''save''), tbl)
    else
     let existingMapping = existing_mapping env tbl userId name in
     if existingMapping = None \<and> name_conflict env tbl userId name
     then (Inl (NameConflict (trim name)), tbl)
     else
      let finalCategory =
            (if category_arg \<noteq> ''General'' then category_arg
             else or_default (case existingMapping of None \<Rightarrow> None | Some e \<Rightarrow> category e) ''General'');
          finalDescription =
            or_else description_arg (case existingMapping of None \<Rightarrow> None | Some e \<Rightarrow> description e);
          finalTags =
            (case tags_arg of Some t \<Rightarrow> t
             | None \<Rightarrow> (case existingMapping of None \<Rightarrow> []
                        | Some e \<Rightarrow> (case tags e of None \<Rightarrow> [] | Some t \<Rightarrow> t)));
          finalTransformType =
            (if transformType \<noteq> ''JsonToJson'' then transformType
             else or_default (case existingMapping of None \<Rightarrow> None | Some e \<Rightarrow> transform_type e)
                    ''JsonToJson'');
          mappingGroupId =
            or_default (case existingMapping of None \<Rightarrow> None | Some e \<Rightarrow> mapping_group_id e)
              (randomUUID env)
      in
      case (case providedVersion of
              None \<Rightarrow> get_next_version env userId name finalCategory
            | Some v \<Rightarrow> if v = [] then get_next_version env userId name finalCategory else Inr v) of
        Inl message \<Rightarrow> (Inl (NextVersionFailed message), tbl)
      | Inr ver \<Rightarrow>
         let uiConfig =
               \<lparr>cfg_name = name, cfg_version = ver, cfg_category = finalCategory,
                cfg_description = finalDescription, cfg_tags = finalTags, cfg_graph = graph,
                cfg_author = userId, cfg_created_at = now env, cfg_created_by = userId\<rparr>
         in
         case (if existingMapping \<noteq> None
               then (case deactivate_error env of
                       Some message \<Rightarrow> Inl (DeactivateFailed message)
                     | None \<Rightarrow> Inr (deactivate_group userId mappingGroupId tbl))
               else Inr tbl) of
           Inl err \<Rightarrow> (Inl err, tbl)
         | Inr tbl1 \<Rightarrow>
            (case insert_error env of
               Some message \<Rightarrow> (Inl (SaveFailed message), tbl1)
             | None \<Rightarrow>
                let data =
                      \<lparr>row_id = new_row_id env, user_id = userId, row_name = name, version = ver,
                       category = Some finalCategory, description = finalDescription,
                       tags = Some finalTags, transform_type = Some finalTransformType,
                       mapping_group_id = Some mappingGroupId, ui_config = uiConfig,
                       execution_config = executionConfig, is_active = True,
                       created_at = now env, updated_at = now env\<rparr>
                in (Inr data, tbl1 @ [data])))"

text \<open>
  \<^verbatim>\<open>activateVersion\<close>. The \<^verbatim>\<open>category\<close> argument is \<open>None\<close> when the caller passes \<^verbatim>\<open>null\<close>. A
  truthy category is compared with \<^verbatim>\<open>.eq\<close>, which matches the rows storing that string; any
  other is compared with \<^verbatim>\<open>.is('category', null)\<close>, which matches the rows storing \<^verbatim>\<open>NULL\<close>.
\<close>

definition category_matches :: "string option \<Rightarrow> ('g, 'x) mapping_row \<Rightarrow> bool" where
  "category_matches category_arg r =
     (if truthy category_arg then category r = category_arg else category r = None)"

definition deactivate_named ::
  "string \<Rightarrow> string \<Rightarrow> string option \<Rightarrow> ('g, 'x) mapping_row list \<Rightarrow> ('g, 'x) mapping_row list" where
  "deactivate_named userId name category_arg tbl =
     map (\<lambda>r. if user_id r = userId \<and> row_name r = name \<and> category_matches category_arg r
               then r\<lparr>is_active := False\<rparr> else r) tbl"

definition activate_row ::
  "string \<Rightarrow> string \<Rightarrow> ('g, 'x) mapping_row list \<Rightarrow> ('g, 'x) mapping_row list" where
  "activate_row i userId tbl =
     map (\<lambda>r. if row_id r = i \<and> user_id r = userId then r\<lparr>is_active := True\<rparr> else r) tbl"

definition activateVersion ::
  "store_env \<Rightarrow> string \<Rightarrow> string \<Rightarrow> string \<Rightarrow> string option \<Rightarrow> ('g, 'x) mapping_row list \<Rightarrow>
   (store_error + unit) \<times> ('g, 'x) mapping_row list" where
  "activateVersion env i userId name category_arg tbl =
     (if userId = [] then (Inl (AuthenticationRequired ''update''), tbl)
      else case deactivate_error env of
        Some message \<Rightarrow> (Inl (DeactivateFailed message), tbl)
      | None \<Rightarrow>
         (let tbl1 = deactivate_named userId name category_arg tbl in
          case activate_error env of
            Some message \<Rightarrow> (Inl (ActivateFailed message), tbl1)
          | None \<Rightarrow> (Inr (), activate_row i userId tbl1)))"

text \<open>The rows of one user and group that are active: the partition of the uniqueness invariant.\<close>

definition active_in_group ::
  "string \<Rightarrow> string option \<Rightarrow> ('g, 'x) mapping_row list \<Rightarrow> ('g, 'x) mapping_row list" where
  "active_in_group userId gid tbl =
     filter (\<lambda>r. user_id r = userId \<and> mapping_group_id r = gid \<and> is_active r) tbl"

definition in_group :: "string \<Rightarrow> string option \<Rightarrow> ('g, 'x) mapping_row \<Rightarrow> bool" where
  "in_group userId gid r = (user_id r = userId \<and> mapping_group_id r = gid)"

text \<open>The two steps of \<^verbatim>\<open>activateVersion\<close> on one row.\<close>

definition switch_row ::
  "string \<Rightarrow> string \<Rightarrow> string \<Rightarrow> string option \<Rightarrow> ('g, 'x) mapping_row \<Rightarrow> ('g, 'x) mapping_row" where
  "switch_row i userId name category_arg r =
     (let r1 = (if user_id r = userId \<and> row_name r = name \<and> category_matches category_arg r
                then r\<lparr>is_active := False\<rparr> else r)
      in if row_id r1 = i \<and> user_id r1 = userId then r1\<lparr>is_active := True\<rparr> else r1)"

subsection \<open>A small table\<close>

text \<open>
  An environment in which every call succeeds, and the rows of user \<^verbatim>\<open>u1\<close>'s mapping
  \<^verbatim>\<open>orders\<close> in group \<^verbatim>\<open>g1\<close>, given by id, version, category and activity.
\<close>

definition sample_env :: store_env where
  "sample_env =
     \<lparr>randomUUID = ''g2'', now = ''2025-01-01T00:00:00.000Z'', new_row_id = ''r9'',
      get_next_version = (\<lambda>u n c. Inr ''v1.03''),
      existing_query_fails = False, conflict_query_fails = False,
      deactivate_error = None, insert_error = None, activate_error = None\<rparr>"

definition sample_config :: "string \<Rightarrow> string \<Rightarrow> unit SavedMappingConfig" where
  "sample_config ver cat =
     \<lparr>cfg_name = ''orders'', cfg_version = ver, cfg_category = cat, cfg_description = None,
      cfg_tags = [], cfg_graph = (), cfg_author = ''u1'',
      cfg_created_at = ''2025-01-01T00:00:00.000Z'', cfg_created_by = ''u1''\<rparr>"

definition sample_row :: "string \<Rightarrow> string \<Rightarrow> string \<Rightarrow> bool \<Rightarrow> (unit, unit) mapping_row" where
  "sample_row i ver cat act =
     \<lparr>row_id = i, user_id = ''u1'', row_name = ''orders'', version = ver, category = Some cat,
      description = None, tags = Some [], transform_type = Some ''JsonToJson'',
      mapping_group_id = Some ''g1'', ui_config = sample_config ver cat, execution_config = None,
      is_active = act, created_at = ''2025-01-01T00:00:00.000Z'',
      updated_at = ''2025-01-01T00:00:00.000Z''\<rparr>"

section \<open>The schema model and the canvas graph\<close>

text \<open>
  \<^verbatim>\<open>SchemaField\<close> as \<^verbatim>\<open>TargetNode.tsx\<close> declares it: \<^verbatim>\<open>id\<close>, \<^verbatim>\<open>name\<close>, \<^verbatim>\<open>type\<close> (one of six
  literals), and the optional \<^verbatim>\<open>children\<close>, \<^verbatim>\<open>parent\<close> and \<^verbatim>\<open>groupBy\<close>.
\<close>

datatype FieldType = TString | TNumber | TBoolean | TDate | TObject | TArray

datatype SchemaField =
  SchemaField (f_id: string) (f_name: string) (f_type: FieldType)
    (f_children: "SchemaField list option") (f_parent: "string option") (f_groupBy: "string option")

text \<open>
  An entry of the array-configuration list (\<^verbatim>\<open>any[]\<close> in the source): the keys read are
  \<^verbatim>\<open>target\<close> and \<^verbatim>\<open>groupBy\<close>.
\<close>

record ArrayConfig =
  ac_target :: string
  ac_groupBy :: "string option"

text \<open>
  \<^verbatim>\<open>reconstructSchemaFields\<close>, lines 83 to 102. \<open>reconstructField\<close> is the function mapped over
  the list: a copy of the field; when the field is an array and a list of configurations is
  given, the first configuration whose target is the field's name, if there is one, sets
  \<^verbatim>\<open>groupBy\<close> to \<^verbatim>\<open>arrayConfig.groupBy || undefined\<close>; the children, when present, are
  reconstructed in turn.
\<close>

fun reconstructField :: "ArrayConfig list option \<Rightarrow> SchemaField \<Rightarrow> SchemaField" where
  "reconstructField arrayConfigs (SchemaField i n t ch p g) =
     SchemaField i n t
       (case ch of None \<Rightarrow> None | Some cs \<Rightarrow> Some (map (reconstructField arrayConfigs) cs))
       p
       (case arrayConfigs of
          None \<Rightarrow> g
        | Some configs \<Rightarrow>
            if t = TArray then
              (case find (\<lambda>config. ac_target config = n) configs of
                 None \<Rightarrow> g
               | Some arrayConfig \<Rightarrow>
                   (case ac_groupBy arrayConfig of
                      None \<Rightarrow> None
                    | Some gb \<Rightarrow> if gb = [] then None else Some gb))
            else g)"

definition reconstructSchemaFields :: "SchemaField list \<Rightarrow> ArrayConfig list option \<Rightarrow> SchemaField list" where
  "reconstructSchemaFields flds arrayConfigs = map (reconstructField arrayConfigs) flds"

text \<open>All the fields of a tree, parents before children, and of a list of trees.\<close>

fun flat_field :: "SchemaField \<Rightarrow> SchemaField list" where
  "flat_field (SchemaField i n t ch p g) =
     SchemaField i n t ch p g #
       (case ch of None \<Rightarrow> [] | Some cs \<Rightarrow> concat (map flat_field cs))"

definition flat_fields :: "SchemaField list \<Rightarrow> SchemaField list" where
  "flat_fields fs = concat (map flat_field fs)"

text \<open>An array field with no configuration of its name.\<close>

definition unmatched_array :: "ArrayConfig list option \<Rightarrow> SchemaField \<Rightarrow> bool" where
  "unmatched_array arrayConfigs f =
     (f_type f = TArray \<and>
      (case arrayConfigs of None \<Rightarrow> True
       | Some configs \<Rightarrow> find (\<lambda>config. ac_target config = f_name f) configs = None))"

text \<open>The \<^verbatim>\<open>groupBy\<close> that the first configuration of a name gives: \<^verbatim>\<open>arrayConfig.groupBy || undefined\<close>.\<close>

definition configured_groupBy :: "ArrayConfig list option \<Rightarrow> string \<Rightarrow> string option" where
  "configured_groupBy arrayConfigs n =
     (case arrayConfigs of
        None \<Rightarrow> None
      | Some configs \<Rightarrow>
          (case find (\<lambda>config. ac_target config = n) configs of
             None \<Rightarrow> None
           | Some arrayConfig \<Rightarrow>
               (case ac_groupBy arrayConfig of
                  None \<Rightarrow> None
                | Some gb \<Rightarrow> if gb = [] then None else Some gb)))"

text \<open>
  What a reconstructed field \<open>b\<close> keeps of the field \<open>a\<close> it comes from: identity, name, type
  and parent, and its own \<^verbatim>\<open>groupBy\<close>, unless \<open>a\<close> is an array with a configuration of its name,
  which then gives the \<^verbatim>\<open>groupBy\<close>.
\<close>

definition kept :: "ArrayConfig list option \<Rightarrow> SchemaField \<Rightarrow> SchemaField \<Rightarrow> bool" where
  "kept arrayConfigs a b =
     (f_id b = f_id a \<and> f_name b = f_name a \<and> f_type b = f_type a \<and> f_parent b = f_parent a \<and>
      (if f_type a \<noteq> TArray \<or> unmatched_array arrayConfigs a then f_groupBy b = f_groupBy a
       else f_groupBy b = configured_groupBy arrayConfigs (f_name a)))"

section \<open>Nodes and edges of the canvas\<close>

text \<open>
  \<^verbatim>\<open>a?.k\<close> on a value that may be absent, truthiness, \<^verbatim>\<open>a || b\<close>, and the \<^verbatim>\<open>typeof\<close> test for
  an object that is not \<^verbatim>\<open>null\<close>.
\<close>

fun jprop :: "json option \<Rightarrow> string \<Rightarrow> json option" where
  "jprop (Some (JObj kvs)) k = map_of kvs k"
| "jprop v k = None"

fun json_truthy :: "json \<Rightarrow> bool" where
  "json_truthy JNull = False"
| "json_truthy (JBool b) = b"
| "json_truthy (JNum n) = (n \<noteq> 0)"
| "json_truthy (JStr s) = (s \<noteq> [])"
| "json_truthy (JArr xs) = True"
| "json_truthy (JObj kvs) = True"

definition jtruthy :: "json option \<Rightarrow> bool" where
  "jtruthy v = (case v of None \<Rightarrow> False | Some j \<Rightarrow> json_truthy j)"

definition jor :: "json option \<Rightarrow> json option \<Rightarrow> json option" where
  "jor a b = (if jtruthy a then a else b)"

definition jor_default :: "json option \<Rightarrow> json \<Rightarrow> json" where
  "jor_default a d = (case a of None \<Rightarrow> d | Some j \<Rightarrow> if json_truthy j then j else d)"


text \<open>
  Writing a key of a \<^verbatim>\<open>Map\<close>: a key that is present keeps its place and takes the new
  value, a new key goes to the end.
\<close>

fun set_key :: "string \<Rightarrow> 'a \<Rightarrow> (string \<times> 'a) list \<Rightarrow> (string \<times> 'a) list" where
  "set_key k v [] = [(k, v)]"
| "set_key k v ((k', v') # kvs) = (if k' = k then (k, v) # kvs else (k', v') # set_key k v kvs)"

text \<open>
  Writing a key of an object. An object enumerates its integer-like keys first, in
  ascending order, and its other keys after them in the order they were added. A key is
  integer-like when it is the decimal text, without a leading zero, of a number up to
  \<open>2^32 - 2\<close>. A key that is present keeps its place.
\<close>

definition digit_of :: "char \<Rightarrow> int option" where
  "digit_of c = (let n = (of_char c :: int) in if 48 \<le> n \<and> n \<le> 57 then Some (n - 48) else None)"

definition read_digits :: "string \<Rightarrow> int" where
  "read_digits k = foldl (\<lambda>n c. 10 * n + (case digit_of c of None \<Rightarrow> 0 | Some d \<Rightarrow> d)) 0 k"

definition index_key :: "string \<Rightarrow> int option" where
  "index_key k =
     (if k \<noteq> [] \<and> list_all (\<lambda>c. digit_of c \<noteq> None) k \<and> (k = ''0'' \<or> take 1 k \<noteq> ''0'')
         \<and> read_digits k \<le> 4294967294
      then Some (read_digits k) else None)"

fun insert_index :: "int \<Rightarrow> string \<times> 'a \<Rightarrow> (string \<times> 'a) list \<Rightarrow> (string \<times> 'a) list" where
  "insert_index n kv [] = [kv]"
| "insert_index n kv (kv' # kvs) =
     (case index_key (fst kv') of
        None \<Rightarrow> kv # kv' # kvs
      | Some n' \<Rightarrow> if n' < n then kv' # insert_index n kv kvs else kv # kv' # kvs)"

definition obj_set :: "string \<Rightarrow> 'a \<Rightarrow> (string \<times> 'a) list \<Rightarrow> (string \<times> 'a) list" where
  "obj_set k v kvs =
     (case index_key k of
        None \<Rightarrow> set_key k v kvs
      | Some n \<Rightarrow> if k \<in> set (map fst kvs) then set_key k v kvs else insert_index n (k, v) kvs)"



text \<open>The entries of the arrays kept in a node's data.\<close>

record StaticValue =
  sv_id :: string
  sv_value :: string

record ConversionEntry =
  ce_from :: string
  ce_to :: string

text \<open>
  The \<^verbatim>\<open>data\<close> of a node is a dictionary (\<^verbatim>\<open>Record<string, unknown>\<close>). The keys the code reads
  or writes are the fields below, each \<open>None\<close> when the key is absent or does not hold a
  value of the kind the code tests for (\<^verbatim>\<open>Array.isArray\<close>, \<^verbatim>\<open>typeof\<close>); \<open>d_other\<close> holds
  every other key.
\<close>

record NodeData =
  d_label :: "string option"
  d_fields :: "SchemaField list option"
  d_data :: "json list option"
  d_fieldValues :: "json option"
  d_transformType :: "string option"
  d_operator :: "string option"
  d_compareValue :: "string option"
  d_thenValue :: "string option"
  d_elseValue :: "string option"
  d_values :: "StaticValue list option"
  d_delimiter :: "string option"
  d_splitIndex :: "int option"
  d_config :: "json option"
  d_rules :: "json option"
  d_defaultValue :: "json option"
  d_outputType :: "string option"
  d_inputValues :: "json option"
  d_mappings :: "ConversionEntry list option"
  d_initialExpandedFields :: "string list option"
  d_other :: "(string \<times> json) list"

definition no_data :: NodeData where
  "no_data =
     \<lparr>d_label = None, d_fields = None, d_data = None, d_fieldValues = None,
      d_transformType = None, d_operator = None, d_compareValue = None, d_thenValue = None,
      d_elseValue = None, d_values = None, d_delimiter = None, d_splitIndex = None,
      d_config = None, d_rules = None, d_defaultValue = None, d_outputType = None,
      d_inputValues = None, d_mappings = None, d_initialExpandedFields = None, d_other = []\<rparr>"

text \<open>
  A node and an edge of \<^verbatim>\<open>@xyflow/react\<close>: the \<^verbatim>\<open>type\<close> of a node is optional, the handles of
  an edge are optional (\<^verbatim>\<open>string | null | undefined\<close>).
\<close>

record Node =
  n_id :: string
  n_type :: "string option"
  n_position :: "int \<times> int"
  n_data :: NodeData

record Edge =
  e_id :: string
  e_source :: string
  e_target :: string
  e_sourceHandle :: "string option"
  e_targetHandle :: "string option"

definition find_node :: "Node list \<Rightarrow> string \<Rightarrow> Node option" where
  "find_node ns i = find (\<lambda>n. n_id n = i) ns"

section \<open>The execution export: exportExecutionMapping\<close>

text \<open>
  An \<^verbatim>\<open>ExecutionMapping\<close>. \<open>em_from\<close> is \<open>None\<close> for \<^verbatim>\<open>null\<close>; the keys after \<open>em_type\<close> are
  optional. The \<^verbatim>\<open>map\<close> object is its list of keys and values.
\<close>

datatype MappingType = DirectM | StaticM | IfThenM | MapM

datatype TransformInfo =
    GenericTransform string json json
  | SubstringTransform json "json option"
  | SplitTransform string int

record ExecutionMapping =
  em_from :: "string option"
  em_to :: string
  em_type :: MappingType
  em_value :: "string option"
  em_if :: "(string \<times> string) option"
  em_then :: "string option"
  em_else :: "string option"
  em_map :: "(string \<times> string) list option"
  em_transform :: "TransformInfo option"

record ExecutionMappingConfig =
  ec_name :: string
  ec_version :: string
  ec_mappings :: "ExecutionMapping list"
  ec_description :: string
  ec_tags :: "string list"
  ec_author :: string

text \<open>
  The console. Every call in this function is \<^verbatim>\<open>console.log\<close>; an entry is the level and
  what is printed.
\<close>

datatype console_level = Log | Warn | Error

datatype exec_event =
    GeneratingHeader
  | ProcessingCounts nat nat
  | TargetNodeCount nat
  | ProcessingTargetNode string nat
  | IncomingEdgeCount string nat
  | ProcessingEdgeFrom "string option" string
  | GeneratedMapping ExecutionMapping
  | FinalHeader
  | FinalConfig ExecutionMappingConfig

text \<open>\<^verbatim>\<open>Array.isArray(fields) ? fields.find(f => f.id === handle) : null\<close>.\<close>

definition field_by_handle :: "NodeData \<Rightarrow> string option \<Rightarrow> SchemaField option" where
  "field_by_handle d handle =
     (case d_fields d of None \<Rightarrow> None | Some fs \<Rightarrow> find (\<lambda>f. Some (f_id f) = handle) fs)"

definition value_by_handle :: "NodeData \<Rightarrow> string option \<Rightarrow> StaticValue option" where
  "value_by_handle d handle =
     (case d_values d of None \<Rightarrow> None | Some vs \<Rightarrow> find (\<lambda>v. Some (sv_id v) = handle) vs)"

text \<open>\<^verbatim>\<open>edges.find(e => e.target === node.id)\<close>: the first edge into a node.\<close>

definition input_edge :: "Edge list \<Rightarrow> Node \<Rightarrow> Edge option" where
  "input_edge es n = find (\<lambda>e. e_target e = n_id n) es"

text \<open>Lines 41 to 52: the origin is a source node.\<close>

definition direct_mapping :: "SchemaField \<Rightarrow> Edge \<Rightarrow> Node \<Rightarrow> ExecutionMapping" where
  "direct_mapping targetField edge sourceNode =
     (let sourceField = field_by_handle (n_data sourceNode) (e_sourceHandle edge) in
      \<lparr>em_from = Some (case sourceField of
                         None \<Rightarrow> or_default (e_sourceHandle edge) []
                       | Some f \<Rightarrow> if f_name f \<noteq> [] then f_name f
                                   else or_default (e_sourceHandle edge) []),
       em_to = f_name targetField, em_type = DirectM, em_value = None, em_if = None,
       em_then = None, em_else = None, em_map = None, em_transform = None\<rparr>)"

text \<open>Lines 54 to 66: the origin is a static-value node.\<close>

definition static_mapping :: "SchemaField \<Rightarrow> Edge \<Rightarrow> Node \<Rightarrow> ExecutionMapping" where
  "static_mapping targetField edge sourceNode =
     (let staticValue = value_by_handle (n_data sourceNode) (e_sourceHandle edge) in
      \<lparr>em_from = None, em_to = f_name targetField, em_type = StaticM,
       em_value = Some (case staticValue of None \<Rightarrow> [] | Some v \<Rightarrow> sv_value v),
       em_if = None, em_then = None, em_else = None, em_map = None, em_transform = None\<rparr>)"

text \<open>Lines 68 to 94: the origin is an if-then node.\<close>

definition ifThen_mapping :: "Node list \<Rightarrow> Edge list \<Rightarrow> SchemaField \<Rightarrow> Node \<Rightarrow> ExecutionMapping" where
  "ifThen_mapping ns es targetField sourceNode =
     (let sourceData = n_data sourceNode;
          operator = (case d_operator sourceData of None \<Rightarrow> ''='' | Some s \<Rightarrow> s);
          compareValue = (case d_compareValue sourceData of None \<Rightarrow> [] | Some s \<Rightarrow> s);
          thenValue = (case d_thenValue sourceData of None \<Rightarrow> [] | Some s \<Rightarrow> s);
          elseValue = (case d_elseValue sourceData of None \<Rightarrow> [] | Some s \<Rightarrow> s);
          inputField =
            (case input_edge es sourceNode of
               None \<Rightarrow> None
             | Some ifThenInputEdge \<Rightarrow>
                 (case find_node ns (e_source ifThenInputEdge) of
                    None \<Rightarrow> None
                  | Some inputSourceNode \<Rightarrow>
                      field_by_handle (n_data inputSourceNode) (e_sourceHandle ifThenInputEdge)))
      in
      \<lparr>em_from = Some (case inputField of None \<Rightarrow> [] | Some f \<Rightarrow> f_name f),
       em_to = f_name targetField, em_type = IfThenM, em_value = None,
       em_if = Some (operator, compareValue), em_then = Some thenValue, em_else = Some elseValue,
       em_map = None, em_transform = None\<rparr>)"

text \<open>Lines 139 to 161: what is recorded of the node between the source and the mapping node.\<close>

definition transform_info :: "Node \<Rightarrow> TransformInfo option" where
  "transform_info inputNode =
     (let transformData = n_data inputNode in
      if n_type inputNode = Some ''transform'' then
        (let config = jor_default (d_config transformData) (JObj []) in
         if jprop (Some config) ''stringOperation'' = Some (JStr ''substring'')
         then Some (SubstringTransform
                      (jor_default (jprop (Some config) ''substringStart'') (JNum 0))
                      (jprop (Some config) ''substringEnd''))
         else Some (GenericTransform
                      (or_default (d_transformType transformData) ''transform'')
                      (jor_default (jor (jprop (Some config) ''stringOperation'')
                                        (jprop (Some config) ''operation''))
                         (JStr ''unknown''))
                      config))
      else if n_type inputNode = Some ''splitterTransform'' then
        Some (SplitTransform
                (or_default (d_delimiter transformData) '','')
                (case d_splitIndex transformData of None \<Rightarrow> 0 | Some i \<Rightarrow> i))
      else None)"

text \<open>
  Lines 96 to 176: the origin is a conversion-mapping node. The assignment
  \<^verbatim>\<open>mapObject[mapping.from] = mapping.to\<close> writes a key of the object; on the key
  \<^verbatim>\<open>__proto__\<close> it reaches the setter every object inherits, which ignores a string.
\<close>

definition map_object :: "NodeData \<Rightarrow> (string \<times> string) list" where
  "map_object sourceData =
     (case d_mappings sourceData of
        None \<Rightarrow> []
      | Some conversionMappings \<Rightarrow>
          foldl (\<lambda>mapObject m.
                   if ce_from m = ''__proto__'' then mapObject
                   else obj_set (ce_from m) (ce_to m) mapObject)
            [] conversionMappings)"

definition conversion_mapping :: "Node list \<Rightarrow> Edge list \<Rightarrow> SchemaField \<Rightarrow> Node \<Rightarrow> ExecutionMapping" where
  "conversion_mapping ns es targetField sourceNode =
     (let mapObject = map_object (n_data sourceNode);
          resolved =
            (case input_edge es sourceNode of
               None \<Rightarrow> ([], None)
             | Some conversionInputEdge \<Rightarrow>
                 (case find_node ns (e_source conversionInputEdge) of
                    None \<Rightarrow> ([], None)
                  | Some inputNode \<Rightarrow>
                      if n_type inputNode = Some ''source'' then
                        ((case field_by_handle (n_data inputNode) (e_sourceHandle conversionInputEdge) of
                            None \<Rightarrow> [] | Some f \<Rightarrow> f_name f),
                         None)
                      else if n_type inputNode = Some ''transform'' \<or>
                              n_type inputNode = Some ''splitterTransform'' then
                        (case input_edge es inputNode of
                           None \<Rightarrow> ([], None)
                         | Some transformInputEdge \<Rightarrow>
                             (case find_node ns (e_source transformInputEdge) of
                                None \<Rightarrow> ([], None)
                              | Some transformSourceNode \<Rightarrow>
                                  if n_type transformSourceNode = Some ''source'' then
                                    ((case field_by_handle (n_data transformSourceNode)
                                             (e_sourceHandle transformInputEdge) of
                                        None \<Rightarrow> [] | Some f \<Rightarrow> f_name f),
                                     transform_info inputNode)
                                  else ([], None)))
                      else ([], None)))
      in
      \<lparr>em_from = Some (fst resolved), em_to = f_name targetField, em_type = MapM,
       em_value = None, em_if = None, em_then = None, em_else = None,
       em_map = Some mapObject, em_transform = snd resolved\<rparr>)"

text \<open>
  Lines 41 to 180: the chain on the type of the origin node. \<open>None\<close> is the \<^verbatim>\<open>return\<close> of the
  last branch: nothing is pushed.
\<close>

definition edge_mapping ::
  "Node list \<Rightarrow> Edge list \<Rightarrow> SchemaField \<Rightarrow> Edge \<Rightarrow> Node \<Rightarrow> ExecutionMapping option" where
  "edge_mapping ns es targetField edge sourceNode =
     (if n_type sourceNode = Some ''source'' then Some (direct_mapping targetField edge sourceNode)
      else if n_type sourceNode = Some ''staticValue'' then Some (static_mapping targetField edge sourceNode)
      else if n_type sourceNode = Some ''ifThen'' then Some (ifThen_mapping ns es targetField sourceNode)
      else if n_type sourceNode = Some ''conversionMapping''
        then Some (conversion_mapping ns es targetField sourceNode)
      else None)"

text \<open>
  The state of the export: the \<^verbatim>\<open>mappings\<close> array and the console. Lines 33 to 184: the body
  of the loop over the incoming edges of a target field.
\<close>

type_synonym exec_state = "ExecutionMapping list \<times> (console_level \<times> exec_event) list"

definition process_edge ::
  "Node list \<Rightarrow> Edge list \<Rightarrow> SchemaField \<Rightarrow> exec_state \<Rightarrow> Edge \<Rightarrow> exec_state" where
  "process_edge ns es targetField st edge =
     (case find_node ns (e_source edge) of
        None \<Rightarrow> st
      | Some sourceNode \<Rightarrow>
          (let st1 = (fst st, snd st @ [(Log, ProcessingEdgeFrom (n_type sourceNode) (f_name targetField))])
           in case edge_mapping ns es targetField edge sourceNode of
                None \<Rightarrow> st1
              | Some mapping \<Rightarrow> (fst st1 @ [mapping], snd st1 @ [(Log, GeneratedMapping mapping)])))"

text \<open>Lines 27 to 29.\<close>

definition incoming_edges :: "Edge list \<Rightarrow> Node \<Rightarrow> SchemaField \<Rightarrow> Edge list" where
  "incoming_edges es targetNode targetField =
     filter (\<lambda>edge. e_target edge = n_id targetNode \<and> e_targetHandle edge = Some (f_id targetField)) es"

definition process_field ::
  "Node list \<Rightarrow> Edge list \<Rightarrow> Node \<Rightarrow> exec_state \<Rightarrow> SchemaField \<Rightarrow> exec_state" where
  "process_field ns es targetNode st targetField =
     (let incomingEdges = incoming_edges es targetNode targetField;
          st1 = (fst st, snd st @ [(Log, IncomingEdgeCount (f_name targetField) (length incomingEdges))])
      in foldl (process_edge ns es targetField) st1 incomingEdges)"

text \<open>
  Lines 19 to 187. \<^verbatim>\<open>nodeData?.fields || []\<close> followed by \<^verbatim>\<open>Array.isArray\<close>: the fields when they
  are an array, none otherwise.
\<close>

definition target_fields :: "Node \<Rightarrow> SchemaField list" where
  "target_fields targetNode = (case d_fields (n_data targetNode) of None \<Rightarrow> [] | Some fs \<Rightarrow> fs)"

definition process_target :: "Node list \<Rightarrow> Edge list \<Rightarrow> exec_state \<Rightarrow> Node \<Rightarrow> exec_state" where
  "process_target ns es st targetNode =
     (let targetFields = target_fields targetNode;
          st1 = (fst st, snd st @ [(Log, ProcessingTargetNode (n_id targetNode) (length targetFields))])
      in foldl (process_field ns es targetNode) st1 targetFields)"

definition exportExecutionMapping ::
  "Node list \<Rightarrow> Edge list \<Rightarrow> string \<Rightarrow> ExecutionMappingConfig \<times> (console_level \<times> exec_event) list" where
  "exportExecutionMapping ns es name =
     (let targetNodes = filter (\<lambda>node. n_type node = Some ''target'') ns;
          st0 = ([], [(Log, GeneratingHeader), (Log, ProcessingCounts (length ns) (length es)),
                      (Log, TargetNodeCount (length targetNodes))]);
          st = foldl (process_target ns es) st0 targetNodes;
          config = \<lparr>ec_name = name, ec_version = ''1.0.0'', ec_mappings = fst st,
                    ec_description = ''Simplified execution mapping configuration for integration tools'',
                    ec_tags = [''execution'', ''integration'', ''data-transformation''],
                    ec_author = ''Lovable Mapping Tool''\<rparr>
      in (config, snd st @ [(Log, FinalHeader), (Log, FinalConfig config)]))"

text \<open>
  An edge whose origin node exists and has none of the four types the chain knows, and
  what each step appends to the mappings.
\<close>

definition unknown_origin :: "Node list \<Rightarrow> Edge \<Rightarrow> bool" where
  "unknown_origin ns edge =
     (case find_node ns (e_source edge) of
        None \<Rightarrow> False
      | Some sourceNode \<Rightarrow>
          n_type sourceNode \<notin> set [Some ''source'', Some ''staticValue'', Some ''ifThen'',
                                    Some ''conversionMapping''])"

definition edge_result :: "Node list \<Rightarrow> Edge list \<Rightarrow> SchemaField \<Rightarrow> Edge \<Rightarrow> ExecutionMapping option" where
  "edge_result ns es targetField edge =
     (case find_node ns (e_source edge) of
        None \<Rightarrow> None
      | Some sourceNode \<Rightarrow> edge_mapping ns es targetField edge sourceNode)"

subsection \<open>A small graph\<close>

text \<open>Fields, nodes and edges given by their ids, for the examples.\<close>

definition sample_field :: "string \<Rightarrow> string \<Rightarrow> SchemaField" where
  "sample_field i n = SchemaField i n TString None None None"

definition sample_node :: "string \<Rightarrow> string \<Rightarrow> SchemaField list \<Rightarrow> Node" where
  "sample_node i ty fs =
     \<lparr>n_id = i, n_type = Some ty, n_position = (0, 0), n_data = no_data\<lparr>d_fields := Some fs\<rparr>\<rparr>"

definition sample_edge :: "string \<Rightarrow> string \<Rightarrow> string option \<Rightarrow> string \<Rightarrow> string \<Rightarrow> Edge" where
  "sample_edge i src sh tgt th =
     \<lparr>e_id = i, e_source = src, e_target = tgt, e_sourceHandle = sh, e_targetHandle = Some th\<rparr>"

definition sample_nodes :: "Node list" where
  "sample_nodes =
     [sample_node ''t1'' ''target'' [sample_field ''f1'' ''total'', sample_field ''f2'' ''paid''],
      sample_node ''x1'' ''transform'' [],
      sample_node ''s1'' ''source'' [sample_field ''a1'' ''amount'']]"

definition direct_to :: "string \<Rightarrow> string \<Rightarrow> ExecutionMapping" where
  "direct_to src tgt =
     \<lparr>em_from = Some src, em_to = tgt, em_type = DirectM, em_value = None, em_if = None,
      em_then = None, em_else = None, em_map = None, em_transform = None\<rparr>"

section \<open>The UI export and the node importers\<close>








subsection \<open>A node's data as a value\<close>







subsection \<open>exportUIMappingConfiguration\<close>














subsection \<open>The importers\<close>










subsection \<open>What a round trip keeps\<close>













subsection \<open>Three more nodes for the examples\<close>







section \<open>The canvas importer: auto-expansion in handleImportMapping\<close>


text \<open>
  \<^verbatim>\<open>.replace(/\[.*?\]/g, '')\<close>: scanning from the left, an opening bracket and everything up
  to the nearest closing bracket is removed, when a closing bracket follows before any line
  terminator (the dot of the expression matches no line terminator); otherwise the opening
  bracket stays.
\<close>

fun closes :: "string \<Rightarrow> bool" where
  "closes [] = False"
| "closes (c # cs) =
     (if c = CHR '']'' then True
      else if c = CHR 0x0A \<or> c = CHR 0x0D then False
      else closes cs)"

fun strip_indices :: "string \<Rightarrow> string"
  and drop_to_close :: "string \<Rightarrow> string" where
  "strip_indices [] = []"
| "strip_indices (c # cs) =
     (if c = CHR ''['' \<and> closes cs then drop_to_close cs else c # strip_indices cs)"
| "drop_to_close [] = []"
| "drop_to_close (c # cs) = (if c = CHR '']'' then strip_indices cs else drop_to_close cs)"











chapter \<open>Properties\<close>

section \<open>Properties of the AI suggestion adapter\<close>

subsection \<open>An invariant and a simulation for skipped entries\<close>

text \<open>
  Every id of the form \<^verbatim>\<open>target_f\<close> in \<open>addedNodeIds\<close> belongs to the target node of \<open>f\<close>: the
  prefixes of the other ids differ from \<^verbatim>\<open>target_\<close>.
\<close>

lemma tp_push: "targets_present st \<Longrightarrow> (\<And>tf. node_id n = ''target_'' @ tf \<Longrightarrow> n = target_node tf)
   \<Longrightarrow> targets_present (push_node n st)"
  by (auto simp: targets_present_def push_node_def)

lemma tp_push_edge: "targets_present st \<Longrightarrow> targets_present (push_edge t f g st)"
  by (simp add: targets_present_def push_edge_def)

lemma tp_addTarget: "targets_present st \<Longrightarrow> targets_present (addTarget tf st)"
  by (auto simp: addTarget_def Let_def target_node_def intro!: tp_push)

lemma tp_addSource: "targets_present st \<Longrightarrow> targets_present (snd (addSource f st))"
  by (auto simp: addSource_def Let_def intro!: tp_push)

lemma tp_finish:
  assumes "targets_present st" and "\<And>tf. node_id n \<noteq> ''target_'' @ tf"
  shows "targets_present (finish tid n st)"
proof -
  have "targets_present (push_node n st)"
    using assms(1) by (rule tp_push) (use assms(2) in blast)
  with assms(1) show ?thesis
    unfolding finish_def by (auto intro: tp_push_edge)
qed

lemma tp_concat: "targets_present st \<Longrightarrow> targets_present (concat_sources nid fs st)"
proof (induction fs arbitrary: st)
  case Nil then show ?case by simp
next
  case (Cons f fs)
  have "targets_present (push_edge EdgeT (fst (addSource f st)) nid (snd (addSource f st)))"
    using Cons.prems by (intro tp_push_edge tp_addSource)
  from Cons.IH[OF this] show ?case by (simp add: split_def Let_def)
qed

lemma tp_switch: "targets_present st \<Longrightarrow> targets_present (switch_mapping m st)"
proof (cases m)
  case (Unrecognized tf mt) assume "targets_present st"
  then show ?thesis using Unrecognized by (simp add: targets_present_def)
qed (auto simp: split_def Let_def intro!: tp_finish tp_push_edge tp_addSource tp_concat)

lemma tp_process: "targets_present st \<Longrightarrow> targets_present (process_mapping st m)"
  by (simp add: process_mapping_def tp_switch tp_addTarget)

lemma tp_foldl: "targets_present st \<Longrightarrow> targets_present (foldl process_mapping st ms)"
  by (induction ms arbitrary: st) (simp_all add: tp_process)

lemma tp_run: "targets_present (run_mappings ms)"
  unfolding run_mappings_def by (rule tp_foldl) (simp add: targets_present_def init_state_def)

lemma addTarget_alt: "addTarget tf st = add_if_new (target_node tf) st"
  by (simp add: addTarget_def add_if_new_def target_node_def Let_def)

lemma addSource_alt: "addSource f st = (''source_'' @ f, add_if_new (SourceNode (''source_'' @ f) f f) st)"
  by (simp add: addSource_def add_if_new_def Let_def)

lemma finish_alt: "finish tid n st = push_edge EdgeT (node_id n) tid (add_if_new n st)"
  by (simp add: finish_def add_if_new_def)

lemma sbt_push:
  assumes "same_but_target tf st1 st2" and "node_id n \<noteq> ''target_'' @ tf"
  shows "same_but_target tf (add_if_new n st1) (add_if_new n st2)"
proof -
  from assms(2) have ne: "n \<noteq> target_node tf" by (auto simp: target_node_def)
  from assms have mem: "node_id n \<in> addedNodeIds st1 \<longleftrightarrow> node_id n \<in> addedNodeIds st2"
    by (simp add: same_but_target_def)
  show ?thesis
  proof (cases "node_id n \<in> addedNodeIds st2")
    case True with mem assms(1) show ?thesis by (simp add: add_if_new_def)
  next
    case False
    with mem assms(1) ne show ?thesis
      by (auto simp: same_but_target_def push_node_def add_if_new_def)
  qed
qed

lemma sbt_push_edge:
  "same_but_target tf st1 st2 \<Longrightarrow> same_but_target tf (push_edge t f g st1) (push_edge t f g st2)"
  by (simp add: same_but_target_def push_edge_def)

lemma sbt_addSource:
  assumes "same_but_target tf st1 st2"
  shows "same_but_target tf (snd (addSource f st1)) (snd (addSource f st2))"
  unfolding addSource_alt snd_conv by (rule sbt_push[OF assms]) simp

lemma fst_addSource: "fst (addSource f st) = ''source_'' @ f"
  by (simp add: addSource_alt)

lemma sbt_finish:
  assumes "same_but_target tf st1 st2" and "node_id n \<noteq> ''target_'' @ tf"
  shows "same_but_target tf (finish tid n st1) (finish tid n st2)"
  unfolding finish_alt by (intro sbt_push_edge sbt_push assms)

lemma sbt_addTarget:
  assumes "same_but_target tf st1 st2"
  shows "same_but_target tf (addTarget tf' st1) (addTarget tf' st2)"
proof (cases "tf' = tf")
  case False
  then show ?thesis
    unfolding addTarget_alt by (intro sbt_push[OF assms]) (simp add: target_node_def)
next
  case True
  with assms show ?thesis
    by (auto simp: addTarget_alt add_if_new_def same_but_target_def push_node_def target_node_def)
qed

lemma sbt_concat:
  "same_but_target tf st1 st2 \<Longrightarrow>
   same_but_target tf (concat_sources nid fs st1) (concat_sources nid fs st2)"
proof (induction fs arbitrary: st1 st2)
  case Nil then show ?case by simp
next
  case (Cons f fs)
  have "same_but_target tf (push_edge EdgeT (fst (addSource f st1)) nid (snd (addSource f st1)))
                            (push_edge EdgeT (fst (addSource f st2)) nid (snd (addSource f st2)))"
    using sbt_addSource[OF Cons.prems, of f] by (simp add: sbt_push_edge fst_addSource)
  from Cons.IH[OF this] show ?case by (simp add: split_def Let_def)
qed

lemma sbt_switch:
  assumes "same_but_target tf st1 st2"
  shows "same_but_target tf (switch_mapping m st1) (switch_mapping m st2)"
proof (cases m)
  case (Direct t sf)
  then show ?thesis using sbt_addSource[OF assms, of sf]
    by (simp add: split_def Let_def sbt_push_edge fst_addSource)
next
  case (Static t v)
  then show ?thesis using assms by (simp add: sbt_finish)
next
  case (Conditional t cs)
  then show ?thesis using assms by (simp add: sbt_finish)
next
  case (Table t sf tb)
  then show ?thesis using sbt_addSource[OF assms, of sf]
    by (simp add: split_def Let_def sbt_finish sbt_push_edge fst_addSource)
next
  case (DateConversion t sf fm)
  then show ?thesis using sbt_addSource[OF assms, of sf]
    by (simp add: split_def Let_def sbt_finish sbt_push_edge fst_addSource)
next
  case (Concat t sfs sep)
  then show ?thesis using sbt_concat[OF assms] by (simp add: Let_def sbt_finish)
next
  case (Split t sf dl ix)
  then show ?thesis using sbt_addSource[OF assms, of sf]
    by (simp add: split_def Let_def sbt_finish sbt_push_edge fst_addSource)
next
  case (Skip t)
  then show ?thesis using assms by simp
next
  case (Unrecognized t mt)
  then show ?thesis using assms by (simp add: same_but_target_def)
qed

lemma sbt_foldl:
  "same_but_target tf st1 st2 \<Longrightarrow>
   same_but_target tf (foldl process_mapping st1 ms) (foldl process_mapping st2 ms)"
  by (induction ms arbitrary: st1 st2) (simp_all add: process_mapping_def sbt_switch sbt_addTarget)

lemma sbt_skipped:
  assumes "skipped s" and "targets_present st"
  shows "same_but_target (target_field s) (process_mapping st s) st"
proof -
  have sw: "same_but_target (target_field s) (addTarget (target_field s) st) st"
    using assms(2)
    by (auto simp: same_but_target_def addTarget_alt add_if_new_def push_node_def targets_present_def target_node_def)
  from assms(1) show ?thesis
  proof (cases s)
    case (Skip t) with sw show ?thesis by (simp add: process_mapping_def)
  next
    case (Unrecognized t mt) with sw show ?thesis
      by (simp add: process_mapping_def same_but_target_def)
  qed (simp_all add: skipped_def)
qed

lemma sbt_run:
  assumes "skipped s"
  shows "same_but_target (target_field s) (run_mappings (xs @ s # ys)) (run_mappings (xs @ ys))"
  unfolding run_mappings_def
  using sbt_foldl[OF sbt_skipped[OF assms tp_foldl], of init_state xs ys]
  by (simp add: targets_present_def init_state_def)

subsection \<open>The concat example\<close>

text \<open>
  Claim C6. For the one-element list holding the concat suggestion for \<^verbatim>\<open>fullname\<close> from
  \<^verbatim>\<open>Roepnaam\<close> and \<^verbatim>\<open>Achternaam\<close> with separator \<^verbatim>\<open>" "\<close>, \<open>convertMappingsToCanvas\<close> returns
  exactly four nodes, with the ids \<^verbatim>\<open>target_fullname\<close>, \<^verbatim>\<open>source_Roepnaam\<close>, \<^verbatim>\<open>source_Achternaam\<close>
  and \<^verbatim>\<open>concat_fullname\<close> (in the order the code pushes them), and exactly three edges:
  from each source node to the concat node, and from the concat node to the target node.
\<close>

theorem concat_fullname_example:
  "convertMappingsToCanvas [Concat ''fullname'' [''Roepnaam'', ''Achternaam''] (Some '' '')] =
    ([TargetNode ''target_fullname'' ''fullname'' ''fullname'',
      SourceNode ''source_Roepnaam'' ''Roepnaam'' ''Roepnaam'',
      SourceNode ''source_Achternaam'' ''Achternaam'' ''Achternaam'',
      ConcatTransformNode ''concat_fullname'' ''Concat: Roepnaam + Achternaam''
        [''Roepnaam'', ''Achternaam''] '' ''],
     [\<lparr>edge_type = EdgeT, edge_from = ''source_Roepnaam'', edge_to = ''concat_fullname''\<rparr>,
      \<lparr>edge_type = EdgeT, edge_from = ''source_Achternaam'', edge_to = ''concat_fullname''\<rparr>,
      \<lparr>edge_type = EdgeT, edge_from = ''concat_fullname'', edge_to = ''target_fullname''\<rparr>])"
  by (simp add: convertMappingsToCanvas_def run_mappings_def process_mapping_def init_state_def
      addTarget_def addSource_def finish_def push_node_def push_edge_def Let_def)

subsection \<open>Skipped entries\<close>

text \<open>
  Claim C5, as stated, fails: an entry whose \<^verbatim>\<open>mapping_type\<close> is \<^verbatim>\<open>skip\<close> does contribute a
  node. The target node of every entry is pushed at the top of the loop body, before the
  switch is reached, so the list holding only a skip entry for \<^verbatim>\<open>x\<close> yields the node
  \<^verbatim>\<open>target_x\<close>, where the empty list yields no node.
\<close>

theorem skip_contributes_target_counterexample:
  "fst (convertMappingsToCanvas [Skip ''x'']) = [TargetNode ''target_x'' ''x'' ''x''] \<and>
   fst (convertMappingsToCanvas []) = []"
  by (simp add: convertMappingsToCanvas_def run_mappings_def process_mapping_def init_state_def
      addTarget_def push_node_def Let_def)

text \<open>
  Claim C5, amended. For every suggestion list, an entry whose \<^verbatim>\<open>mapping_type\<close> is \<^verbatim>\<open>skip\<close> or
  unrecognized contributes no edge and no node other than the target node of its own
  \<^verbatim>\<open>target_field\<close>: with the entry and without it the edges are the same list, the nodes
  other than that target node are the same list (same ids, same order), and with the entry
  that target node is among the nodes.
\<close>

theorem skip_adds_target_only:
  assumes "skipped s"
  shows "snd (convertMappingsToCanvas (xs @ s # ys)) = snd (convertMappingsToCanvas (xs @ ys)) \<and>
         removeAll (target_node (target_field s)) (fst (convertMappingsToCanvas (xs @ s # ys)))
           = removeAll (target_node (target_field s)) (fst (convertMappingsToCanvas (xs @ ys))) \<and>
         target_node (target_field s) \<in> set (fst (convertMappingsToCanvas (xs @ s # ys)))"
  using sbt_run[OF assms, of xs ys]
  by (simp add: convertMappingsToCanvas_def same_but_target_def Let_def)

text \<open>
  An unrecognized entry for \<^verbatim>\<open>x\<close> between a direct and a static entry: the edges are those of
  the two other entries, and the only node added is \<^verbatim>\<open>target_x\<close>.
\<close>

theorem skip_adds_target_only_witness:
  "skipped (Unrecognized ''x'' ''fuzzy'') \<and>
   snd (convertMappingsToCanvas ([Direct ''a'' ''b''] @ Unrecognized ''x'' ''fuzzy'' # [Static ''c'' ''v''])) =
   snd (convertMappingsToCanvas ([Direct ''a'' ''b''] @ [Static ''c'' ''v''])) \<and>
   removeAll (target_node (target_field (Unrecognized ''x'' ''fuzzy'')))
     (fst (convertMappingsToCanvas ([Direct ''a'' ''b''] @ Unrecognized ''x'' ''fuzzy'' # [Static ''c'' ''v''])))
   = removeAll (target_node (target_field (Unrecognized ''x'' ''fuzzy'')))
     (fst (convertMappingsToCanvas ([Direct ''a'' ''b''] @ [Static ''c'' ''v'']))) \<and>
   target_node (target_field (Unrecognized ''x'' ''fuzzy''))
     \<in> set (fst (convertMappingsToCanvas ([Direct ''a'' ''b''] @ Unrecognized ''x'' ''fuzzy'' # [Static ''c'' ''v''])))"
proof -
  have h: "skipped (Unrecognized ''x'' ''fuzzy'')" by (simp add: skipped_def)
  show ?thesis
    using h skip_adds_target_only [OF h, of "[Direct ''a'' ''b'']" "[Static ''c'' ''v'']"] by simp
qed

section \<open>Properties of the request handler\<close>

lemma indexOf_absent: "c \<notin> set s \<Longrightarrow> indexOf c s = - 1"
  by (induction s) auto

lemma indexOf_first: "c \<notin> set pre \<Longrightarrow> indexOf c (pre @ c # rest) = int (length pre)"
  by (induction pre) (auto simp: Let_def)

lemma lastIndexOf_absent: "c \<notin> set s \<Longrightarrow> lastIndexOf c s = - 1"
  by (simp add: lastIndexOf_def indexOf_absent)

lemma lastIndexOf_last: "c \<notin> set post \<Longrightarrow> lastIndexOf c (pre @ c # post) = int (length pre)"
  using indexOf_first[of c "rev post" "rev pre"]
  by (simp add: lastIndexOf_def Let_def)

lemma jsonString_bounded:
  assumes "CHR ''['' \<notin> set pre" and "CHR '']'' \<notin> set post"
  shows "jsonString (pre @ CHR ''['' # mid @ CHR '']'' # post) = CHR ''['' # mid @ [CHR '']'']"
proof -
  let ?raw = "pre @ CHR ''['' # mid @ CHR '']'' # post"
  have a: "indexOf CHR ''['' ?raw = int (length pre)"
    using assms(1) by (rule indexOf_first)
  have "lastIndexOf CHR '']'' ((pre @ CHR ''['' # mid) @ CHR '']'' # post) = int (length (pre @ CHR ''['' # mid))"
    using assms(2) by (rule lastIndexOf_last)
  then have b: "lastIndexOf CHR '']'' ?raw = int (length pre) + int (length mid) + 1"
    by simp
  have n: "nat (2 + int (length mid)) = length (CHR ''['' # mid @ [CHR '']''])"
    by simp
  have "slice ?raw (int (length pre)) (int (length pre) + int (length mid) + 1 + 1)
          = take (nat (2 + int (length mid))) ((CHR ''['' # mid @ [CHR '']'']) @ post)"
    by (simp add: slice_def Let_def)
  also have "\<dots> = CHR ''['' # mid @ [CHR '']'']"
    unfolding n by (rule append_eq_conv_conj[THEN iffD1, THEN conjunct1, symmetric]) simp
  finally show ?thesis
    unfolding jsonString_def Let_def a b .
qed

lemma jsonString_no_open:
  assumes "CHR ''['' \<notin> set raw"
  shows "jsonString raw = [] \<or> jsonString raw = '']''"
proof (cases "CHR '']'' \<in> set raw")
  case False
  then show ?thesis
    by (simp add: jsonString_def slice_def Let_def lastIndexOf_absent)
next
  case True
  then obtain pre post where raw: "raw = pre @ CHR '']'' # post" and np: "CHR '']'' \<notin> set post"
    using split_list_last by fastforce
  have a: "indexOf CHR ''['' raw = - 1" using assms by (rule indexOf_absent)
  have b: "lastIndexOf CHR '']'' raw = int (length pre)"
    unfolding raw using np by (rule lastIndexOf_last)
  show ?thesis
  proof (cases post)
    case Nil
    then show ?thesis unfolding jsonString_def Let_def a b
      by (simp add: slice_def Let_def raw)
  next
    case (Cons p ps)
    then show ?thesis unfolding jsonString_def Let_def a b
      by (simp add: slice_def Let_def raw)
  qed
qed

lemma jsonString_no_close: "CHR '']'' \<notin> set raw \<Longrightarrow> jsonString raw = []"
  by (simp add: jsonString_def slice_def Let_def lastIndexOf_absent)

lemma jsonString_unbounded:
  assumes "\<forall>pre mid post. raw \<noteq> pre @ CHR ''['' # mid @ CHR '']'' # post"
  shows "jsonString raw = [] \<or> jsonString raw = '']''"
proof (cases "CHR ''['' \<in> set raw \<and> CHR '']'' \<in> set raw")
  case False
  then show ?thesis using jsonString_no_open jsonString_no_close by blast
next
  case True
  then obtain pre rest where raw: "raw = pre @ CHR ''['' # rest" and np: "CHR ''['' \<notin> set pre"
    using split_list_first by fastforce
  have nr: "CHR '']'' \<notin> set rest"
  proof
    assume "CHR '']'' \<in> set rest"
    then obtain mid post where "rest = mid @ CHR '']'' # post" by (auto dest: split_list)
    with raw assms show False by blast
  qed
  with True raw have "CHR '']'' \<in> set pre" by auto
  then obtain p1 p2 where pre: "pre = p1 @ CHR '']'' # p2" and n2: "CHR '']'' \<notin> set p2"
    using split_list_last by fastforce
  have a: "indexOf CHR ''['' raw = int (length pre)"
    unfolding raw using np by (rule indexOf_first)
  have "lastIndexOf CHR '']'' (p1 @ CHR '']'' # (p2 @ CHR ''['' # rest)) = int (length p1)"
    by (rule lastIndexOf_last) (use n2 nr in auto)
  then have b: "lastIndexOf CHR '']'' raw = int (length p1)"
    by (simp add: raw pre)
  show ?thesis
    unfolding jsonString_def Let_def a b by (simp add: slice_def Let_def pre)
qed

lemma all_of_Some: "all_of xs = Some ys \<Longrightarrow> list_all (\<lambda>x. x \<noteq> None) xs"
  by (simp add: all_of_def split: if_splits)

lemma map_filter_none: "list_all (\<lambda>x. f x = None) xs \<Longrightarrow> List.map_filter f xs = []"
  by (induction xs) (auto simp: List.map_filter_simps)

text \<open>Strings and numbers have a text, so a value read at its declared type throws nowhere.\<close>

lemma first_unprintable_none:
  assumes "list_all (\<lambda>v. case v of None \<Rightarrow> True | Some j \<Rightarrow> \<not> unprintable j) vs"
  shows "first_unprintable vs = None"
proof -
  have "List.map_filter
          (\<lambda>v. case v of None \<Rightarrow> None
                 | Some j \<Rightarrow> if unprintable j then Some (NoPrimitive j) else None) vs = []"
    by (rule map_filter_none) (use assms in \<open>auto simp: list_all_iff split: option.splits\<close>)
  then show ?thesis by (simp add: first_unprintable_def)
qed

lemma as_string_printable:
  "as_string v = Some s \<Longrightarrow> (case v of None \<Rightarrow> True | Some j \<Rightarrow> \<not> unprintable j)"
  by (cases "(v)" rule: as_string.cases) auto

lemma as_int_printable:
  "as_int v = Some i \<Longrightarrow> (case v of None \<Rightarrow> True | Some j \<Rightarrow> \<not> unprintable j)"
  by (cases "(v)" rule: as_int.cases) auto

lemma as_strings_array:
  assumes "as_strings v = Some sfs"
  shows "\<exists>xs. v = Some (JArr xs) \<and> first_unprintable (map Some xs) = None"
proof (cases "(v)" rule: as_strings.cases)
  case (1 xs)
  with assms have "list_all (\<lambda>x. x \<noteq> None) (map (\<lambda>x. as_string (Some x)) xs)"
    by (auto dest: all_of_Some)
  then have "\<not> unprintable x" if "x \<in> set xs" for x
    using that as_string_printable[of "Some x"] by (auto simp: list_all_iff)
  then have "list_all (\<lambda>v. case v of None \<Rightarrow> True | Some j \<Rightarrow> \<not> unprintable j) (map Some xs)"
    by (auto simp: list_all_iff)
  with 1 show ?thesis by (simp add: first_unprintable_none)
qed (use assms in auto)

lemma read_variant_printed:
  assumes "as_string (get ''target_field'') = Some tf" and "as_string (get ''mapping_type'') = Some mt"
    and "mt \<noteq> ''concat''" and "read_variant get tf mt = Some m"
  shows "first_unprintable (printed get) = None"
proof -
  from assms(2) have mt: "get ''mapping_type'' = Some (JStr mt)"
    by (cases "(get ''mapping_type'')" rule: as_string.cases) auto
  note p = as_string_printable as_int_printable
  have tf: "case get ''target_field'' of None \<Rightarrow> True | Some j \<Rightarrow> \<not> unprintable j"
    using assms(1) by (rule as_string_printable)
  have "list_all (\<lambda>v. case v of None \<Rightarrow> True | Some j \<Rightarrow> \<not> unprintable j) (printed get)"
    using assms(3,4) tf
    by (auto simp: printed_def mt read_variant_def dest: p split: if_splits option.splits)
  then show ?thesis by (rule first_unprintable_none)
qed

lemma read_entry_no_throw:
  assumes "read_entry entry = Some m"
  shows "entry_throws entry = None"
proof (cases entry)
  case (JObj kvs)
  from assms JObj obtain tf mt where
    tf: "as_string (map_of kvs ''target_field'') = Some tf" and
    mt: "as_string (map_of kvs ''mapping_type'') = Some mt" and
    rv: "read_variant (map_of kvs) tf mt = Some m"
    by (auto split: option.splits)
  from mt have mt': "map_of kvs ''mapping_type'' = Some (JStr mt)"
    by (cases "(map_of kvs ''mapping_type'')" rule: as_string.cases) auto
  show ?thesis
  proof (cases "mt = ''concat''")
    case False
    with tf mt rv have "first_unprintable (printed (map_of kvs)) = None"
      by (intro read_variant_printed)
    with JObj False mt' show ?thesis by simp
  next
    case True
    have "list_all (\<lambda>v. case v of None \<Rightarrow> True | Some j \<Rightarrow> \<not> unprintable j) [map_of kvs ''target_field'']"
      using as_string_printable[OF tf] by simp
    then have t: "first_unprintable [map_of kvs ''target_field''] = None"
      by (rule first_unprintable_none)
    from rv True obtain sfs where "as_strings (map_of kvs ''source_fields'') = Some sfs"
      by (auto simp: read_variant_def split: option.splits)
    then obtain xs where "map_of kvs ''source_fields'' = Some (JArr xs)"
      and "first_unprintable (map Some xs) = None"
      using as_strings_array by blast
    with JObj True mt' t show ?thesis by simp
  qed
qed (use assms in auto)

lemma read_suggestions_no_throw:
  assumes "read_suggestions parsed = Some ms"
  shows "first_throw parsed = None"
proof (cases parsed)
  case (JArr entries)
  with assms have "all_of (map read_entry entries) = Some ms"
    by simp
  then have "list_all (\<lambda>x. x \<noteq> None) (map read_entry entries)"
    by (rule all_of_Some)
  then have "list_all (\<lambda>e. entry_throws e = None) entries"
    by (auto simp: list_all_iff intro: read_entry_no_throw)
  then show ?thesis using JArr by (simp add: map_filter_none)
qed (use assms in auto)

text \<open>
  Claim C8. The handler takes the substring of the reply from its first \<^verbatim>\<open>[\<close> to its last
  \<^verbatim>\<open>]\<close>, both included, and parses it. When the text parses to a list of suggestions the
  answer is the success result with that list and the canvas made from it, and whenever the
  text parses and nothing throws afterwards, the answer carries the parsed value. When the
  parse fails the answer is the single error result with the parser's message, and so it is,
  with the message of the exception, when the parsed value makes the conversion throw. A
  reply without \<^verbatim>\<open>[\<close> or without \<^verbatim>\<open>]\<close>, and more generally a reply with no \<^verbatim>\<open>[\<close> before a
  \<^verbatim>\<open>]\<close>, leaves the empty text or the text \<^verbatim>\<open>]\<close> to parse, neither of which is JSON (the two
  hypotheses on \<open>parse\<close>), so it is answered with the error result too. A success answer
  carries the whole parsed value and the canvas made from the whole list, never a part of
  it.
\<close>

theorem oracle_reply_extraction:
  assumes "parse [] = Inl e0" and "parse '']'' = Inl e1"
  shows "(CHR ''['' \<notin> set pre \<and> CHR '']'' \<notin> set post \<longrightarrow>
            jsonString (pre @ CHR ''['' # mid @ CHR '']'' # post) = CHR ''['' # mid @ [CHR '']'']) \<and>
         (\<forall>parsed ms. parse (jsonString raw) = Inr parsed \<and> read_suggestions parsed = Some ms \<longrightarrow>
            respond parse message_of raw =
              Success parsed (Some (applyTemplate (convertMappingsToCanvas ms)))) \<and>
         (\<forall>parsed. parse (jsonString raw) = Inr parsed \<and> first_throw parsed = None \<longrightarrow>
            (\<exists>canvas. respond parse message_of raw = Success parsed canvas)) \<and>
         (\<forall>e. parse (jsonString raw) = Inl e \<longrightarrow> respond parse message_of raw = Failure 500 e) \<and>
         (\<forall>parsed exception. parse (jsonString raw) = Inr parsed \<and> first_throw parsed = Some exception \<longrightarrow>
            respond parse message_of raw = Failure 500 (message_of exception)) \<and>
         (CHR ''['' \<notin> set raw \<or> CHR '']'' \<notin> set raw \<longrightarrow>
            respond parse message_of raw = Failure 500 e0 \<or> respond parse message_of raw = Failure 500 e1) \<and>
         ((\<forall>pre mid post. raw \<noteq> pre @ CHR ''['' # mid @ CHR '']'' # post) \<longrightarrow>
            respond parse message_of raw = Failure 500 e0 \<or> respond parse message_of raw = Failure 500 e1) \<and>
         (\<forall>parsed canvas. respond parse message_of raw = Success parsed canvas \<longrightarrow>
            parse (jsonString raw) = Inr parsed \<and> first_throw parsed = None \<and>
            canvas = map_option (\<lambda>ms. applyTemplate (convertMappingsToCanvas ms)) (read_suggestions parsed))"
proof -
  have extraction: "CHR ''['' \<notin> set pre \<and> CHR '']'' \<notin> set post \<longrightarrow>
      jsonString (pre @ CHR ''['' # mid @ CHR '']'' # post) = CHR ''['' # mid @ [CHR '']'']"
    by (simp add: jsonString_bounded)
  have typed: "\<forall>parsed ms. parse (jsonString raw) = Inr parsed \<and> read_suggestions parsed = Some ms \<longrightarrow>
      respond parse message_of raw = Success parsed (Some (applyTemplate (convertMappingsToCanvas ms)))"
    by (simp add: respond_def read_suggestions_no_throw)
  have passes: "\<forall>parsed. parse (jsonString raw) = Inr parsed \<and> first_throw parsed = None \<longrightarrow>
      (\<exists>canvas. respond parse message_of raw = Success parsed canvas)"
    by (simp add: respond_def)
  have malformed: "\<forall>e. parse (jsonString raw) = Inl e \<longrightarrow> respond parse message_of raw = Failure 500 e"
    by (simp add: respond_def)
  have throws: "\<forall>parsed exception. parse (jsonString raw) = Inr parsed \<and> first_throw parsed = Some exception \<longrightarrow>
      respond parse message_of raw = Failure 500 (message_of exception)"
    by (simp add: respond_def)
  have no_bracket: "CHR ''['' \<notin> set raw \<or> CHR '']'' \<notin> set raw \<longrightarrow>
      respond parse message_of raw = Failure 500 e0 \<or> respond parse message_of raw = Failure 500 e1"
  proof
    assume "CHR ''['' \<notin> set raw \<or> CHR '']'' \<notin> set raw"
    then have "jsonString raw = [] \<or> jsonString raw = '']''"
      using jsonString_no_open jsonString_no_close by blast
    with assms show "respond parse message_of raw = Failure 500 e0 \<or> respond parse message_of raw = Failure 500 e1"
      by (auto simp: respond_def)
  qed
  have unbounded: "(\<forall>pre mid post. raw \<noteq> pre @ CHR ''['' # mid @ CHR '']'' # post) \<longrightarrow>
      respond parse message_of raw = Failure 500 e0 \<or> respond parse message_of raw = Failure 500 e1"
  proof
    assume "\<forall>pre mid post. raw \<noteq> pre @ CHR ''['' # mid @ CHR '']'' # post"
    then have "jsonString raw = [] \<or> jsonString raw = '']''"
      by (rule jsonString_unbounded)
    with assms show "respond parse message_of raw = Failure 500 e0 \<or> respond parse message_of raw = Failure 500 e1"
      by (auto simp: respond_def)
  qed
  have whole: "\<forall>parsed canvas. respond parse message_of raw = Success parsed canvas \<longrightarrow>
      parse (jsonString raw) = Inr parsed \<and> first_throw parsed = None \<and>
      canvas = map_option (\<lambda>ms. applyTemplate (convertMappingsToCanvas ms)) (read_suggestions parsed)"
    by (auto simp: respond_def split: sum.splits option.splits)
  from extraction typed passes malformed throws no_bracket unbounded whole show ?thesis
    by blast
qed

text \<open>
  With the sample parser: the array is cut out of a reply that holds one; the reply with one
  direct suggestion is answered with the suggestion and its canvas of two nodes and one
  edge; the reply \<^verbatim>\<open>[null]\<close> parses and is answered with the error of the exception; a reply
  without brackets is answered with the error of the parser.
\<close>

lemma sample_reply_text:
  "jsonString ''Here: [{\"target_field\":\"name\",\"mapping_type\":\"direct\",\"source_field\":\"naam\"}] Done.''
     = ''[{\"target_field\":\"name\",\"mapping_type\":\"direct\",\"source_field\":\"naam\"}]''"
  "jsonString ''ok [null].'' = ''[null]''"
  "jsonString ''no array'' = []"
  by code_simp+

lemma sample_reply_canvas:
  "applyTemplate (convertMappingsToCanvas [Direct ''name'' ''naam'']) =
     ([\<lparr>fn_id = ''target_name'', fn_type = ''TargetNode'', fn_position = (800, 100),
         fn_data = TargetNode ''target_name'' ''name'' ''name''\<rparr>,
       \<lparr>fn_id = ''source_naam'', fn_type = ''SourceNode'', fn_position = (100, 100),
         fn_data = SourceNode ''source_naam'' ''naam'' ''naam''\<rparr>],
      [\<lparr>fe_id = ''source_naam-target_name-0'', fe_source = ''source_naam'',
         fe_target = ''target_name'', fe_type = ''smoothstep''\<rparr>])"
  by code_simp

lemma sample_reply_read:
  "read_suggestions (JArr [JObj [(''target_field'', JStr ''name''), (''mapping_type'', JStr ''direct''),
                                (''source_field'', JStr ''naam'')]]) = Some [Direct ''name'' ''naam'']"
  "first_throw (JArr [JNull]) = Some ReadOfNull"
  by (simp_all add: all_of_def read_variant_def List.map_filter_simps)

theorem oracle_reply_extraction_witness:
  "sample_parse [] = Inl ''Unexpected end of JSON input'' \<and>
   sample_parse '']'' = Inl ''Unexpected end of JSON input'' \<and>
   jsonString (''ok '' @ CHR ''['' # ''null'' @ CHR '']'' # ''.'') = CHR ''['' # ''null'' @ [CHR '']''] \<and>
   respond sample_parse sample_message_of
       ''Here: [{\"target_field\":\"name\",\"mapping_type\":\"direct\",\"source_field\":\"naam\"}] Done.''
     = Success (JArr [JObj [(''target_field'', JStr ''name''), (''mapping_type'', JStr ''direct''),
                            (''source_field'', JStr ''naam'')]])
         (Some ([\<lparr>fn_id = ''target_name'', fn_type = ''TargetNode'', fn_position = (800, 100),
                   fn_data = TargetNode ''target_name'' ''name'' ''name''\<rparr>,
                 \<lparr>fn_id = ''source_naam'', fn_type = ''SourceNode'', fn_position = (100, 100),
                   fn_data = SourceNode ''source_naam'' ''naam'' ''naam''\<rparr>],
                [\<lparr>fe_id = ''source_naam-target_name-0'', fe_source = ''source_naam'',
                   fe_target = ''target_name'', fe_type = ''smoothstep''\<rparr>])) \<and>
   respond sample_parse sample_message_of ''ok [null].'' = Failure 500 ''Cannot read properties of null'' \<and>
   respond sample_parse sample_message_of ''no array'' = Failure 500 ''Unexpected end of JSON input''"
proof -
  have empty_text: "sample_parse [] = Inl ''Unexpected end of JSON input''"
    and bracket_text: "sample_parse '']'' = Inl ''Unexpected end of JSON input''"
    by (simp_all add: sample_parse_def)
  note facts = oracle_reply_extraction [OF empty_text bracket_text]
  have cut: "jsonString (''ok '' @ CHR ''['' # ''null'' @ CHR '']'' # ''.'') = CHR ''['' # ''null'' @ [CHR '']'']"
    using facts [THEN conjunct1, of "''ok ''" "''.''" "''null''"] by simp
  have typed: "respond sample_parse sample_message_of
       ''Here: [{\"target_field\":\"name\",\"mapping_type\":\"direct\",\"source_field\":\"naam\"}] Done.''
     = Success (JArr [JObj [(''target_field'', JStr ''name''), (''mapping_type'', JStr ''direct''),
                            (''source_field'', JStr ''naam'')]])
         (Some (applyTemplate (convertMappingsToCanvas [Direct ''name'' ''naam''])))"
    by (rule facts [THEN conjunct2, THEN conjunct1, rule_format], rule conjI)
       (simp add: sample_parse_def sample_reply_text, rule sample_reply_read)
  have thrown: "respond sample_parse sample_message_of ''ok [null].'' = Failure 500 (sample_message_of ReadOfNull)"
    by (rule facts [THEN conjunct2, THEN conjunct2, THEN conjunct2, THEN conjunct2, THEN conjunct1, rule_format],
        rule conjI)
       (simp add: sample_parse_def sample_reply_text, rule sample_reply_read)
  have "CHR ''['' \<notin> set ''no array'' \<or> CHR '']'' \<notin> set ''no array''"
    by simp
  then have no_array: "respond sample_parse sample_message_of ''no array'' = Failure 500 ''Unexpected end of JSON input''"
    using facts [THEN conjunct2, THEN conjunct2, THEN conjunct2, THEN conjunct2, THEN conjunct2,
                 THEN conjunct1, of "''no array''" sample_message_of]
    by blast
  from empty_text bracket_text cut typed thrown no_array show ?thesis
    by (simp only: sample_reply_canvas sample_message_of.simps simp_thms)
qed

section \<open>Properties of the versioning store\<close>

subsection \<open>Saving a version\<close>

lemma active_deactivate_group:
  "active_in_group u (Some g) (deactivate_group u g tbl) = []"
  by (induction tbl) (auto simp: active_in_group_def deactivate_group_def)

lemma active_fresh:
  "\<forall>r\<in>set tbl. mapping_group_id r \<noteq> Some g \<Longrightarrow> active_in_group u (Some g) tbl = []"
  by (induction tbl) (auto simp: active_in_group_def)

lemma active_append:
  "active_in_group u g (xs @ ys) = active_in_group u g xs @ active_in_group u g ys"
  by (simp add: active_in_group_def)

lemma save_success_shape:
  assumes "saveMapping env name graph userId cat desc tgs exec pv tt tbl = (Inr row, tbl')"
  shows "\<exists>g. mapping_group_id row = Some g \<and> user_id row = userId \<and> is_active row \<and>
           ((existing_mapping env tbl userId name \<noteq> None \<and> tbl' = deactivate_group userId g tbl @ [row]) \<or>
            (existing_mapping env tbl userId name = None \<and> g = randomUUID env \<and> tbl' = tbl @ [row]))"
proof (cases "existing_mapping env tbl userId name")
  case None
  with assms show ?thesis
    by (simp add: saveMapping_def Let_def or_default_def split: if_splits sum.splits option.splits) auto
next
  case (Some e)
  with assms show ?thesis
    by (simp add: saveMapping_def Let_def split: if_splits sum.splits option.splits) auto
qed

lemma save_deactivate_failure:
  assumes "userId \<noteq> []" and "existing_mapping env tbl userId name = Some e"
    and "deactivate_error env = Some message"
  shows "snd (saveMapping env name graph userId cat desc tgs exec pv tt tbl) = tbl \<and>
         (\<exists>m. fst (saveMapping env name graph userId cat desc tgs exec pv tt tbl) = Inl (NextVersionFailed m) \<or>
              fst (saveMapping env name graph userId cat desc tgs exec pv tt tbl) = Inl (DeactivateFailed message))"
  using assms
  by (simp add: saveMapping_def Let_def split: sum.splits option.splits)

text \<open>
  Claim C2. After a successful \<open>saveMapping\<close>, the rows of the caller's user and of the new
  row's group that are active are exactly the new row: when an active mapping of that name
  exists its whole group is deactivated first, and otherwise the group id is the fresh value
  of \<^verbatim>\<open>crypto.randomUUID()\<close> (fresh: the id of no group in the table). When the deactivation
  step is reached and fails, the call ends with that error and the table is unchanged: the
  insert is not run.
\<close>

theorem save_exactly_one_active:
  shows "(\<forall>row tbl'.
            saveMapping env name graph userId cat desc tgs exec pv tt tbl = (Inr row, tbl') \<and>
            (\<forall>r\<in>set tbl. mapping_group_id r \<noteq> Some (randomUUID env)) \<longrightarrow>
            active_in_group userId (mapping_group_id row) tbl' = [row]) \<and>
         (\<forall>message.
            userId \<noteq> [] \<and> existing_mapping env tbl userId name \<noteq> None \<and>
            deactivate_error env = Some message \<longrightarrow>
            snd (saveMapping env name graph userId cat desc tgs exec pv tt tbl) = tbl \<and>
            (\<exists>m. fst (saveMapping env name graph userId cat desc tgs exec pv tt tbl) = Inl (NextVersionFailed m) \<or>
                 fst (saveMapping env name graph userId cat desc tgs exec pv tt tbl) = Inl (DeactivateFailed message)))"
proof (intro conjI[of "\<forall>row tbl'. _ row tbl'" "\<forall>message. _ message"] allI impI)
  fix row tbl'
  assume a: "saveMapping env name graph userId cat desc tgs exec pv tt tbl = (Inr row, tbl') \<and>
             (\<forall>r\<in>set tbl. mapping_group_id r \<noteq> Some (randomUUID env))"
  from save_success_shape[OF a[THEN conjunct1]] obtain g where
    g: "mapping_group_id row = Some g" "user_id row = userId" "is_active row" and
    sh: "(existing_mapping env tbl userId name \<noteq> None \<and> tbl' = deactivate_group userId g tbl @ [row]) \<or>
         (existing_mapping env tbl userId name = None \<and> g = randomUUID env \<and> tbl' = tbl @ [row])"
    by blast
  have new: "active_in_group userId (Some g) [row] = [row]"
    using g by (simp add: active_in_group_def)
  from sh show "active_in_group userId (mapping_group_id row) tbl' = [row]"
  proof
    assume "existing_mapping env tbl userId name \<noteq> None \<and> tbl' = deactivate_group userId g tbl @ [row]"
    then show ?thesis
      by (simp add: g(1) active_append active_deactivate_group new)
  next
    assume "existing_mapping env tbl userId name = None \<and> g = randomUUID env \<and> tbl' = tbl @ [row]"
    with a new show ?thesis
      by (simp add: g(1) active_append active_fresh)
  qed
next
  fix message
  assume a: "userId \<noteq> [] \<and> existing_mapping env tbl userId name \<noteq> None \<and> deactivate_error env = Some message"
  then obtain e where "existing_mapping env tbl userId name = Some e" by blast
  with a show "snd (saveMapping env name graph userId cat desc tgs exec pv tt tbl) = tbl \<and>
            (\<exists>m. fst (saveMapping env name graph userId cat desc tgs exec pv tt tbl) = Inl (NextVersionFailed m) \<or>
                 fst (saveMapping env name graph userId cat desc tgs exec pv tt tbl) = Inl (DeactivateFailed message))"
    by (intro save_deactivate_failure) auto
qed

text \<open>
  Saving a new version of \<^verbatim>\<open>orders\<close> over the active version \<^verbatim>\<open>r1\<close>: the old row is
  deactivated, and the new row \<^verbatim>\<open>r9\<close> is the only active row of the group.
\<close>

theorem save_exactly_one_active_witness:
  "saveMapping sample_env ''orders'' () ''u1'' ''General'' None None None None ''JsonToJson''
     [sample_row ''r1'' ''v1.02'' ''General'' True]
   = (Inr (sample_row ''r9'' ''v1.03'' ''General'' True),
      [sample_row ''r1'' ''v1.02'' ''General'' False, sample_row ''r9'' ''v1.03'' ''General'' True]) \<and>
   mapping_group_id (sample_row ''r1'' ''v1.02'' ''General'' True) \<noteq> Some (randomUUID sample_env) \<and>
   active_in_group ''u1'' (mapping_group_id (sample_row ''r9'' ''v1.03'' ''General'' True))
     [sample_row ''r1'' ''v1.02'' ''General'' False, sample_row ''r9'' ''v1.03'' ''General'' True]
   = [sample_row ''r9'' ''v1.03'' ''General'' True] \<and>
   existing_mapping (sample_env\<lparr>deactivate_error := Some ''timeout''\<rparr>)
     [sample_row ''r1'' ''v1.02'' ''General'' True] ''u1'' ''orders''
   = Some (sample_row ''r1'' ''v1.02'' ''General'' True) \<and>
   saveMapping (sample_env\<lparr>deactivate_error := Some ''timeout''\<rparr>) ''orders'' () ''u1'' ''General''
     None None None None ''JsonToJson'' [sample_row ''r1'' ''v1.02'' ''General'' True]
   = (Inl (DeactivateFailed ''timeout''), [sample_row ''r1'' ''v1.02'' ''General'' True])"
proof -
  have run: "saveMapping sample_env ''orders'' () ''u1'' ''General'' None None None None ''JsonToJson''
       [sample_row ''r1'' ''v1.02'' ''General'' True]
     = (Inr (sample_row ''r9'' ''v1.03'' ''General'' True),
        [sample_row ''r1'' ''v1.02'' ''General'' False, sample_row ''r9'' ''v1.03'' ''General'' True])"
    by (simp add: saveMapping_def existing_mapping_def sample_env_def sample_row_def sample_config_def
        or_default_def or_else_def truthy_def deactivate_group_def Let_def)
  have fresh: "\<forall>r\<in>set [sample_row ''r1'' ''v1.02'' ''General'' True].
                 mapping_group_id r \<noteq> Some (randomUUID sample_env)"
    by (simp add: sample_row_def sample_env_def)
  have failing: "''u1'' \<noteq> [] \<and>
      existing_mapping (sample_env\<lparr>deactivate_error := Some ''timeout''\<rparr>)
        [sample_row ''r1'' ''v1.02'' ''General'' True] ''u1'' ''orders'' \<noteq> None \<and>
      deactivate_error (sample_env\<lparr>deactivate_error := Some ''timeout''\<rparr>) = Some ''timeout''"
    by (simp add: existing_mapping_def sample_env_def sample_row_def)
  have ex: "existing_mapping (sample_env\<lparr>deactivate_error := Some ''timeout''\<rparr>)
        [sample_row ''r1'' ''v1.02'' ''General'' True] ''u1'' ''orders''
      = Some (sample_row ''r1'' ''v1.02'' ''General'' True)"
    by (simp add: existing_mapping_def sample_env_def sample_row_def)
  have nv: "get_next_version (sample_env\<lparr>deactivate_error := Some ''timeout''\<rparr>) = (\<lambda>u n c. Inr ''v1.03'')"
    by (simp add: sample_env_def)
  have fails: "saveMapping (sample_env\<lparr>deactivate_error := Some ''timeout''\<rparr>) ''orders'' () ''u1'' ''General''
       None None None None ''JsonToJson'' [sample_row ''r1'' ''v1.02'' ''General'' True]
     = (Inl (DeactivateFailed ''timeout''), [sample_row ''r1'' ''v1.02'' ''General'' True])"
    using save_exactly_one_active
         [where env = "sample_env\<lparr>deactivate_error := Some ''timeout''\<rparr>"
            and tbl = "[sample_row ''r1'' ''v1.02'' ''General'' True]" and userId = "''u1''"
            and name = "''orders''" and graph = "()" and cat = "''General''" and desc = None
            and tgs = None and exec = None and pv = None and tt = "''JsonToJson''",
          THEN conjunct2, rule_format, OF failing]
    by (auto simp: saveMapping_def ex nv Let_def prod_eq_iff)
  from save_exactly_one_active
         [where env = sample_env and tbl = "[sample_row ''r1'' ''v1.02'' ''General'' True]",
          THEN conjunct1, rule_format, OF conjI, OF run fresh]
  show ?thesis using run fresh ex fails by simp
qed

subsection \<open>Activating a version\<close>

lemma activate_deactivate_map:
  "activate_row i u (deactivate_named u n c tbl) = map (switch_row i u n c) tbl"
  by (simp add: activate_row_def deactivate_named_def switch_row_def Let_def comp_def)

text \<open>
  When neither update fails, the table after \<open>activateVersion\<close> is the table before it with
  every row switched on its own: a row of the user, the name and the matching category is
  deactivated, whatever its group, and the row of the id passed is activated.
\<close>

lemma activate_version_table:
  assumes "userId \<noteq> []" and "deactivate_error env = None" and "activate_error env = None"
  shows "activateVersion env i userId name cat tbl = (Inr (), map (switch_row i userId name cat) tbl)"
  using assms by (simp add: activateVersion_def activate_deactivate_map)

lemma category_matches_own:
  "c \<noteq> Some [] \<Longrightarrow> category r = c \<Longrightarrow> category_matches c r"
  by (cases c) (auto simp: category_matches_def truthy_def)

lemma switch_row_other:
  assumes "in_group u g r" "row_name r = n" "category r = c" "c \<noteq> Some []" "row_id r \<noteq> i"
  shows "switch_row i u n c r = r\<lparr>is_active := False\<rparr>"
  using assms category_matches_own[of c r]
  by (simp add: switch_row_def in_group_def)

lemma switch_row_target:
  assumes "in_group u g r" "row_name r = n" "category r = c" "c \<noteq> Some []"
  shows "switch_row (row_id r) u n c r = r\<lparr>is_active := True\<rparr>"
  using assms category_matches_own[of c r]
  by (simp add: switch_row_def in_group_def)

lemma switch_row_group: "mapping_group_id (switch_row i u n c r) = mapping_group_id r"
  "user_id (switch_row i u n c r) = user_id r" "row_id (switch_row i u n c r) = row_id r"
  by (simp_all add: switch_row_def Let_def)

lemma active_none:
  assumes "\<forall>r\<in>set xs. in_group u g r \<longrightarrow> row_name r = n \<and> category r = c"
    and "c \<noteq> Some []" and "i \<notin> row_id ` set xs"
  shows "active_in_group u g (map (switch_row i u n c) xs) = []"
proof -
  have "\<not> (user_id (switch_row i u n c r) = u \<and> mapping_group_id (switch_row i u n c r) = g \<and>
            is_active (switch_row i u n c r))" if "r \<in> set xs" for r
  proof (cases "in_group u g r")
    case True
    with assms that have "switch_row i u n c r = r\<lparr>is_active := False\<rparr>"
      by (intro switch_row_other[of u g]) auto
    then show ?thesis by simp
  next
    case False
    then show ?thesis by (auto simp: switch_row_group in_group_def)
  qed
  then show ?thesis
    by (simp add: active_in_group_def filter_empty_conv)
qed

text \<open>
  Where the guard on the category is right. Take a group (the rows of one user and one
  group id, with distinct row ids in the table) whose rows all carry the name and the
  category passed to \<open>activateVersion\<close>, the category being \<^verbatim>\<open>NULL\<close> or a string that is not
  empty, and in which version \<open>v1\<close> is active. Activating another version \<open>v2\<close> of the group
  succeeds, leaves \<open>v1\<close> inactive and \<open>v2\<close> active, and no other version of the group
  active.
\<close>

lemma activate_switches_matching_group:
  assumes "userId \<noteq> []" and "deactivate_error env = None" and "activate_error env = None"
    and "distinct (map row_id tbl)"
    and "v1 \<in> set tbl" and "v2 \<in> set tbl" and "v1 \<noteq> v2"
    and "in_group userId g v1" and "in_group userId g v2" and "is_active v1"
    and "\<forall>r\<in>set tbl. in_group userId g r \<longrightarrow> row_name r = name \<and> category r = cat"
    and "cat \<noteq> Some []"
  shows "fst (activateVersion env (row_id v2) userId name cat tbl) = Inr () \<and>
         map row_id (snd (activateVersion env (row_id v2) userId name cat tbl)) = map row_id tbl \<and>
         v1\<lparr>is_active := False\<rparr> \<in> set (snd (activateVersion env (row_id v2) userId name cat tbl)) \<and>
         v2\<lparr>is_active := True\<rparr> \<in> set (snd (activateVersion env (row_id v2) userId name cat tbl)) \<and>
         active_in_group userId g (snd (activateVersion env (row_id v2) userId name cat tbl))
           = [v2\<lparr>is_active := True\<rparr>]"
proof -
  let ?f = "switch_row (row_id v2) userId name cat"
  have res: "activateVersion env (row_id v2) userId name cat tbl = (Inr (), map ?f tbl)"
    using assms(1-3) by (rule activate_version_table)
  from assms(6) obtain xs ys where tbl: "tbl = xs @ v2 # ys" by (auto dest: split_list)
  with assms(4) have nx: "row_id v2 \<notin> row_id ` set xs" and ny: "row_id v2 \<notin> row_id ` set ys"
    by auto
  have id12: "row_id v1 \<noteq> row_id v2"
    using assms(4,5,6,7) by (auto simp: distinct_map inj_on_def)
  have f2: "?f v2 = v2\<lparr>is_active := True\<rparr>"
    using assms(6,9,11,12) by (intro switch_row_target[of userId g]) auto
  have f1: "?f v1 = v1\<lparr>is_active := False\<rparr>"
    using assms(5,8,11,12) id12 by (intro switch_row_other[of userId g]) auto
  have ax: "active_in_group userId g (map ?f xs) = []"
    using assms(11,12) nx by (intro active_none) (auto simp: tbl)
  have ay: "active_in_group userId g (map ?f ys) = []"
    using assms(11,12) ny by (intro active_none) (auto simp: tbl)
  have a2: "active_in_group userId g [v2\<lparr>is_active := True\<rparr>] = [v2\<lparr>is_active := True\<rparr>]"
    using assms(9) by (simp add: active_in_group_def in_group_def)
  have "active_in_group userId g (map ?f tbl) =
          active_in_group userId g (map ?f xs) @ active_in_group userId g [?f v2]
            @ active_in_group userId g (map ?f ys)"
    by (simp add: tbl active_in_group_def)
  then have act: "active_in_group userId g (map ?f tbl) = [v2\<lparr>is_active := True\<rparr>]"
    by (simp only: ax ay f2 a2 append_Nil append_Nil2)
  have ids: "map row_id (map ?f tbl) = map row_id tbl"
    by (simp add: switch_row_group comp_def)
  have m1: "v1\<lparr>is_active := False\<rparr> \<in> set (map ?f tbl)"
    using assms(5) f1 by (metis image_eqI set_map)
  have m2: "v2\<lparr>is_active := True\<rparr> \<in> set (map ?f tbl)"
    using assms(6) f2 by (metis image_eqI set_map)
  show ?thesis
    unfolding res using act ids m1 m2 by simp
qed

text \<open>
  Claim C3 fails on a group whose category is the empty string, a category \<open>saveMapping\<close>
  stores as it is. User \<^verbatim>\<open>u1\<close> saves \<^verbatim>\<open>orders\<close> twice with the category \<^verbatim>\<open>''\<close>: version \<^verbatim>\<open>r1\<close>
  is inactive and version \<^verbatim>\<open>r2\<close> active, both in group \<^verbatim>\<open>g2\<close>. Then \<open>activateVersion\<close> is
  called on \<^verbatim>\<open>r1\<close> with the group's name and category. The guard \<^verbatim>\<open>if (category)\<close> takes the
  empty string for an absent category and compares with \<^verbatim>\<open>.is('category', null)\<close>, which
  matches no row storing the empty string: the call succeeds, \<^verbatim>\<open>r2\<close> is not deactivated,
  and both versions of the group are active. The comment above the query reads
  \<^verbatim>\<open>deactivate all versions of this mapping (handle null category properly)\<close>.
\<close>

theorem activate_empty_category_two_active:
  "(let saved = snd (saveMapping (sample_env\<lparr>new_row_id := ''r2''\<rparr>) ''orders'' () ''u1'' [] None None
                       None (Some ''v1.02'') ''JsonToJson''
                  (snd (saveMapping (sample_env\<lparr>new_row_id := ''r1''\<rparr>) ''orders'' () ''u1'' [] None
                          None None (Some ''v1.01'') ''JsonToJson''
                          ([] :: (unit, unit) mapping_row list))));
        activated = activateVersion sample_env ''r1'' ''u1'' ''orders'' (Some []) saved
    in map (\<lambda>r. (row_id r, mapping_group_id r, category r, is_active r)) saved
         = [(''r1'', Some ''g2'', Some [], False), (''r2'', Some ''g2'', Some [], True)] \<and>
       fst activated = Inr () \<and>
       map (\<lambda>r. (row_id r, mapping_group_id r, category r, is_active r)) (snd activated)
         = [(''r1'', Some ''g2'', Some [], True), (''r2'', Some ''g2'', Some [], True)] \<and>
       map row_id (active_in_group ''u1'' (Some ''g2'') (snd activated)) = [''r1'', ''r2''])"
  by (simp add: saveMapping_def existing_mapping_def name_conflict_def sample_env_def
      or_default_def or_else_def truthy_def deactivate_group_def Let_def
      activateVersion_def deactivate_named_def activate_row_def category_matches_def
      active_in_group_def)

text \<open>
  The deactivation matches rows by user, name and category, not by group, so a group that
  holds versions of two categories escapes it as well: after saving \<^verbatim>\<open>orders\<close> with the
  category \<^verbatim>\<open>A\<close> and again with the category \<^verbatim>\<open>B\<close>, activating the first version with its
  own category leaves the second active.
\<close>

lemma activate_mixed_categories_two_active:
  "(let saved = snd (saveMapping (sample_env\<lparr>new_row_id := ''r2''\<rparr>) ''orders'' () ''u1'' ''B'' None None
                       None (Some ''v1.02'') ''JsonToJson''
                  (snd (saveMapping (sample_env\<lparr>new_row_id := ''r1''\<rparr>) ''orders'' () ''u1'' ''A'' None
                          None None (Some ''v1.01'') ''JsonToJson''
                          ([] :: (unit, unit) mapping_row list))));
        activated = activateVersion sample_env ''r1'' ''u1'' ''orders'' (Some ''A'') saved
    in map (\<lambda>r. (row_id r, mapping_group_id r, category r, is_active r)) (snd activated)
         = [(''r1'', Some ''g2'', Some ''A'', True), (''r2'', Some ''g2'', Some ''B'', True)])"
  by (simp add: saveMapping_def existing_mapping_def name_conflict_def sample_env_def
      or_default_def or_else_def truthy_def deactivate_group_def Let_def
      activateVersion_def deactivate_named_def activate_row_def category_matches_def)

section \<open>Properties of the schema reconstruction\<close>

lemma kept_top: "kept cfgs f (reconstructField cfgs f)"
  by (cases f) (auto simp: kept_def unmatched_array_def configured_groupBy_def split: option.splits)

lemma list_all2_concat_map:
  assumes "\<And>x. x \<in> set xs \<Longrightarrow> list_all2 P (f x) (g x)"
  shows "list_all2 P (concat (map f xs)) (concat (map g xs))"
  using assms by (induction xs) (auto intro: list_all2_appendI)

lemma kept_flat: "list_all2 (kept cfgs) (flat_field f) (flat_field (reconstructField cfgs f))"
proof (induction cfgs f rule: reconstructField.induct)
  case (1 cfgs i n t ch p g)
  have top: "kept cfgs (SchemaField i n t ch p g) (reconstructField cfgs (SchemaField i n t ch p g))"
    by (rule kept_top)
  show ?case
  proof (cases ch)
    case None
    with top show ?thesis by (simp split: option.splits)
  next
    case (Some cs)
    have "list_all2 (kept cfgs) (concat (map flat_field cs))
            (concat (map (\<lambda>c. flat_field (reconstructField cfgs c)) cs))"
      by (rule list_all2_concat_map) (use 1 Some in auto)
    with top Some show ?thesis by (simp add: comp_def split: option.splits)
  qed
qed

text \<open>
  Claim C4, as stated, fails: for an array field with no configuration of its name,
  \<open>reconstructSchemaFields\<close> does not clear \<^verbatim>\<open>groupBy\<close>. The assignment to \<^verbatim>\<open>groupBy\<close> is guarded
  by \<^verbatim>\<open>if (arrayConfig)\<close>, so the copy keeps the field's own value: here \<^verbatim>\<open>sku\<close>, with an empty
  configuration list.
\<close>

theorem reconstruct_unmatched_counterexample:
  "map f_groupBy
     (reconstructSchemaFields [SchemaField ''f1'' ''items'' TArray (Some []) None (Some ''sku'')] (Some []))
   = [Some ''sku'']"
  by (simp add: reconstructSchemaFields_def)

text \<open>
  Claim C4, amended. For every field list and array-configuration list, the fields returned
  are, at every depth and in the same order, the fields given (same id, name, type and
  parent: the recursion descends into the children wherever they are present), and each
  array field that has no configuration of its name, like each field that is not an array,
  keeps its own prior \<^verbatim>\<open>groupBy\<close>; only an array field with a matching configuration takes the
  configuration's \<^verbatim>\<open>groupBy\<close>. The function is a pure function of its inputs.
\<close>

theorem reconstruct_keeps_unmatched_groupBy:
  "list_all2 (kept arrayConfigs) (flat_fields flds)
     (flat_fields (reconstructSchemaFields flds arrayConfigs))"
  unfolding flat_fields_def reconstructSchemaFields_def map_map comp_def
  by (rule list_all2_concat_map) (rule kept_flat)

text \<open>
  An array \<^verbatim>\<open>items\<close> with a stale \<^verbatim>\<open>groupBy\<close> and no configuration keeps it, while its child array
  \<^verbatim>\<open>lines\<close>, which has a configuration, takes the configured one.
\<close>

theorem reconstruct_keeps_unmatched_groupBy_witness:
  "unmatched_array (Some [\<lparr>ac_target = ''lines'', ac_groupBy = Some ''sku''\<rparr>])
     (SchemaField ''f1'' ''items'' TArray (Some [SchemaField ''f2'' ''lines'' TArray None None None])
        None (Some ''stale'')) \<and>
   flat_fields (reconstructSchemaFields
     [SchemaField ''f1'' ''items'' TArray (Some [SchemaField ''f2'' ''lines'' TArray None None None])
        None (Some ''stale'')]
     (Some [\<lparr>ac_target = ''lines'', ac_groupBy = Some ''sku''\<rparr>]))
   = [SchemaField ''f1'' ''items'' TArray (Some [SchemaField ''f2'' ''lines'' TArray None None (Some ''sku'')])
        None (Some ''stale''),
      SchemaField ''f2'' ''lines'' TArray None None (Some ''sku'')]"
  using reconstruct_keeps_unmatched_groupBy
    [of "Some [\<lparr>ac_target = ''lines'', ac_groupBy = Some ''sku''\<rparr>]"
        "[SchemaField ''f1'' ''items'' TArray (Some [SchemaField ''f2'' ''lines'' TArray None None None])
            None (Some ''stale'')]"]
  by (simp add: reconstructSchemaFields_def flat_fields_def unmatched_array_def)

section \<open>Properties of the execution export\<close>

text \<open>
  The loops only append: the mappings of the result are those of the edges, in the order of
  target nodes, then fields, then incoming edges, and every console entry is a
  \<^verbatim>\<open>console.log\<close>.
\<close>

lemma foldl_invariant:
  assumes "\<And>st x. P st \<Longrightarrow> P (step st x)" and "P st"
  shows "P (foldl step st xs)"
  using assms(2) by (induction xs arbitrary: st) (simp_all add: assms(1))

lemma process_edge_result:
  "fst (process_edge ns es f st e) = fst st @ (case edge_result ns es f e of None \<Rightarrow> [] | Some m \<Rightarrow> [m])"
  by (simp add: process_edge_def edge_result_def Let_def split: option.splits)

lemma process_edge_levels:
  "list_all (\<lambda>c. fst c = Log) (snd st) \<Longrightarrow> list_all (\<lambda>c. fst c = Log) (snd (process_edge ns es f st e))"
  by (auto simp: process_edge_def Let_def split: option.splits)

lemma edges_fold_result:
  "fst (foldl (process_edge ns es f) st xs) = fst st @ List.map_filter (edge_result ns es f) xs"
  by (induction xs arbitrary: st) (simp_all add: process_edge_result split: option.splits)

lemma edges_fold_levels:
  "list_all (\<lambda>c. fst c = Log) (snd st) \<Longrightarrow> list_all (\<lambda>c. fst c = Log) (snd (foldl (process_edge ns es f) st xs))"
  by (rule foldl_invariant) (auto intro: process_edge_levels)

lemma process_field_result:
  "fst (process_field ns es t st f) =
     fst st @ List.map_filter (edge_result ns es f) (incoming_edges es t f)"
  by (simp add: process_field_def Let_def edges_fold_result)

lemma process_field_levels:
  "list_all (\<lambda>c. fst c = Log) (snd st) \<Longrightarrow> list_all (\<lambda>c. fst c = Log) (snd (process_field ns es t st f))"
  unfolding process_field_def Let_def by (rule edges_fold_levels) simp

lemma fields_fold_result:
  "fst (foldl (process_field ns es t) st fs) =
     fst st @ concat (map (\<lambda>f. List.map_filter (edge_result ns es f) (incoming_edges es t f)) fs)"
  by (induction fs arbitrary: st) (simp_all add: process_field_result)

lemma fields_fold_levels:
  "list_all (\<lambda>c. fst c = Log) (snd st) \<Longrightarrow> list_all (\<lambda>c. fst c = Log) (snd (foldl (process_field ns es t) st fs))"
  by (rule foldl_invariant) (auto intro: process_field_levels)

lemma process_target_result:
  "fst (process_target ns es st t) =
     fst st @ concat (map (\<lambda>f. List.map_filter (edge_result ns es f) (incoming_edges es t f)) (target_fields t))"
  by (simp add: process_target_def Let_def fields_fold_result)

lemma process_target_levels:
  "list_all (\<lambda>c. fst c = Log) (snd st) \<Longrightarrow> list_all (\<lambda>c. fst c = Log) (snd (process_target ns es st t))"
  unfolding process_target_def Let_def by (rule fields_fold_levels) simp

lemma targets_fold_result:
  "fst (foldl (process_target ns es) st ts) =
     fst st @ concat (map (\<lambda>t. concat (map (\<lambda>f. List.map_filter (edge_result ns es f) (incoming_edges es t f))
                                         (target_fields t))) ts)"
  by (induction ts arbitrary: st) (simp_all add: process_target_result)

lemma targets_fold_levels:
  "list_all (\<lambda>c. fst c = Log) (snd st) \<Longrightarrow> list_all (\<lambda>c. fst c = Log) (snd (foldl (process_target ns es) st ts))"
  by (rule foldl_invariant) (auto intro: process_target_levels)

lemma export_mappings:
  "ec_mappings (fst (exportExecutionMapping ns es name)) =
     concat (map (\<lambda>t. concat (map (\<lambda>f. List.map_filter (edge_result ns es f) (incoming_edges es t f))
                                  (target_fields t)))
              (filter (\<lambda>node. n_type node = Some ''target'') ns))"
  by (simp add: exportExecutionMapping_def Let_def targets_fold_result)

lemma export_levels:
  "list_all (\<lambda>c. fst c = Log) (snd (exportExecutionMapping ns es name))"
proof -
  have "list_all (\<lambda>c. fst c = Log) (snd (foldl (process_target ns es)
           ([], [(Log, GeneratingHeader), (Log, ProcessingCounts (length ns) (length es)),
                 (Log, TargetNodeCount (length (filter (\<lambda>node. n_type node = Some ''target'') ns)))])
           (filter (\<lambda>node. n_type node = Some ''target'') ns)))"
    by (rule targets_fold_levels) simp
  then show ?thesis
    by (simp add: exportExecutionMapping_def Let_def)
qed

lemma unknown_origin_result: "unknown_origin ns e \<Longrightarrow> edge_result ns es f e = None"
  by (auto simp: unknown_origin_def edge_result_def edge_mapping_def split: option.splits)

lemma map_filter_drop_unknown:
  "List.map_filter (edge_result ns es f) (filter (\<lambda>e. \<not> unknown_origin ns e) xs)
     = List.map_filter (edge_result ns es f) xs"
  by (induction xs) (auto simp: unknown_origin_result split: option.splits)

lemma map_filter_mem:
  "x \<in> set xs \<Longrightarrow> g x = Some y \<Longrightarrow> y \<in> set (List.map_filter g xs)"
  by (induction xs) (auto split: option.splits)

text \<open>
  Claim C7, as stated, fails in one part: for an edge whose origin has none of the four
  types no warning is recorded. The last branch of the chain is a bare \<^verbatim>\<open>return\<close>, and the
  function makes no \<^verbatim>\<open>console.warn\<close> call at all. Here the edge from the \<^verbatim>\<open>transform\<close> node
  \<^verbatim>\<open>x1\<close> into field \<^verbatim>\<open>f1\<close> yields no mapping and the console holds no warning.
\<close>

theorem unknown_origin_warning_counterexample:
  "unknown_origin sample_nodes (sample_edge ''e1'' ''x1'' (Some ''out'') ''t1'' ''f1'') \<and>
   ec_mappings (fst (exportExecutionMapping sample_nodes
      [sample_edge ''e1'' ''x1'' (Some ''out'') ''t1'' ''f1''] ''m'')) = [] \<and>
   filter (\<lambda>c. fst c = Warn) (snd (exportExecutionMapping sample_nodes
      [sample_edge ''e1'' ''x1'' (Some ''out'') ''t1'' ''f1''] ''m'')) = []"
  by (simp add: exportExecutionMapping_def process_target_def process_field_def process_edge_def
        incoming_edges_def target_fields_def edge_mapping_def direct_mapping_def field_by_handle_def
        find_node_def sample_nodes_def sample_node_def sample_edge_def sample_field_def no_data_def
        or_default_def direct_to_def unknown_origin_def edge_result_def Let_def)

text \<open>
  Claim C7, amended. In \<open>exportExecutionMapping\<close>, for every edge into a target field whose
  origin node's type is none of \<^verbatim>\<open>source\<close>, \<^verbatim>\<open>staticValue\<close>, \<^verbatim>\<open>ifThen\<close> and
  \<^verbatim>\<open>conversionMapping\<close>, no mapping is emitted for that edge and the edge is dropped silently:
  the step leaves the mappings as they are and adds only the ordinary log line, and the
  console of the whole export holds no entry above the log level. The operation does not
  fail, and every other edge and target field is still processed: the mappings of the result
  are those of the other incoming edges of every field of every target node, in order.
\<close>

theorem unknown_origin_dropped_silently:
  assumes "unknown_origin ns edge"
  shows "(\<exists>sourceNode. find_node ns (e_source edge) = Some sourceNode \<and>
            process_edge ns es targetField st edge =
              (fst st, snd st @ [(Log, ProcessingEdgeFrom (n_type sourceNode) (f_name targetField))])) \<and>
         list_all (\<lambda>c. fst c = Log) (snd (exportExecutionMapping ns es name)) \<and>
         ec_mappings (fst (exportExecutionMapping ns es name)) =
           concat (map (\<lambda>t. concat (map (\<lambda>f. List.map_filter (edge_result ns es f)
                                              (filter (\<lambda>e. \<not> unknown_origin ns e) (incoming_edges es t f)))
                                    (target_fields t)))
                    (filter (\<lambda>node. n_type node = Some ''target'') ns))"
proof (intro conjI)
  from assms obtain sourceNode where f: "find_node ns (e_source edge) = Some sourceNode"
    by (auto simp: unknown_origin_def split: option.splits)
  from assms have "edge_result ns es targetField edge = None" by (rule unknown_origin_result)
  with f have "edge_mapping ns es targetField edge sourceNode = None"
    by (simp add: edge_result_def)
  with f show "\<exists>sourceNode. find_node ns (e_source edge) = Some sourceNode \<and>
            process_edge ns es targetField st edge =
              (fst st, snd st @ [(Log, ProcessingEdgeFrom (n_type sourceNode) (f_name targetField))])"
    by (simp add: process_edge_def Let_def)
next
  show "list_all (\<lambda>c. fst c = Log) (snd (exportExecutionMapping ns es name))"
    by (rule export_levels)
next
  show "ec_mappings (fst (exportExecutionMapping ns es name)) =
           concat (map (\<lambda>t. concat (map (\<lambda>f. List.map_filter (edge_result ns es f)
                                              (filter (\<lambda>e. \<not> unknown_origin ns e) (incoming_edges es t f)))
                                    (target_fields t)))
                    (filter (\<lambda>node. n_type node = Some ''target'') ns))"
    by (simp only: export_mappings map_filter_drop_unknown)
qed

text \<open>
  An edge from the \<^verbatim>\<open>transform\<close> node \<^verbatim>\<open>x1\<close> into \<^verbatim>\<open>f1\<close> and an edge from the source field
  \<^verbatim>\<open>amount\<close> into \<^verbatim>\<open>f2\<close>: the first adds a log line only, the second is exported.
\<close>

theorem unknown_origin_dropped_silently_witness:
  "unknown_origin sample_nodes (sample_edge ''e1'' ''x1'' (Some ''out'') ''t1'' ''f1'') \<and>
   process_edge sample_nodes
      [sample_edge ''e1'' ''x1'' (Some ''out'') ''t1'' ''f1'', sample_edge ''e2'' ''s1'' (Some ''a1'') ''t1'' ''f2'']
      (sample_field ''f1'' ''total'') ([], []) (sample_edge ''e1'' ''x1'' (Some ''out'') ''t1'' ''f1'')
     = ([], [(Log, ProcessingEdgeFrom (Some ''transform'') ''total'')]) \<and>
   ec_mappings (fst (exportExecutionMapping sample_nodes
      [sample_edge ''e1'' ''x1'' (Some ''out'') ''t1'' ''f1'', sample_edge ''e2'' ''s1'' (Some ''a1'') ''t1'' ''f2'']
      ''m'')) = [direct_to ''amount'' ''paid'']"
proof -
  have h: "unknown_origin sample_nodes (sample_edge ''e1'' ''x1'' (Some ''out'') ''t1'' ''f1'')"
    by (simp add: unknown_origin_def find_node_def sample_nodes_def sample_node_def sample_edge_def)
  show ?thesis
    using h unknown_origin_dropped_silently [OF h,
      of "[sample_edge ''e1'' ''x1'' (Some ''out'') ''t1'' ''f1'', sample_edge ''e2'' ''s1'' (Some ''a1'') ''t1'' ''f2'']"
         "sample_field ''f1'' ''total''" "([], [])" "''m''"]
    by (simp add: exportExecutionMapping_def process_target_def process_field_def process_edge_def
        incoming_edges_def target_fields_def edge_mapping_def direct_mapping_def field_by_handle_def
        find_node_def sample_nodes_def sample_node_def sample_edge_def sample_field_def no_data_def
        or_default_def direct_to_def unknown_origin_def edge_result_def Let_def)
qed

text \<open>
  Claim C10. For an edge that originates at a node of type \<^verbatim>\<open>source\<close> and whose
  \<^verbatim>\<open>sourceHandle\<close> is the id of no field in that node's field list, the step pushes a mapping
  of type \<^verbatim>\<open>direct\<close> whose \<^verbatim>\<open>from\<close> is the raw handle, or the empty string when the handle is
  absent; the edge is neither skipped nor an error, and when the edge is an incoming edge of
  a field of a target node the mapping is in the exported configuration.
\<close>

theorem unmatched_handle_falls_back:
  assumes "find_node ns (e_source edge) = Some sourceNode"
    and "n_type sourceNode = Some ''source''"
    and "field_by_handle (n_data sourceNode) (e_sourceHandle edge) = None"
  shows "process_edge ns es targetField st edge =
           (fst st @ [\<lparr>em_from = Some (or_default (e_sourceHandle edge) []), em_to = f_name targetField,
                        em_type = DirectM, em_value = None, em_if = None, em_then = None,
                        em_else = None, em_map = None, em_transform = None\<rparr>],
            snd st @ [(Log, ProcessingEdgeFrom (Some ''source'') (f_name targetField)),
                      (Log, GeneratedMapping
                         \<lparr>em_from = Some (or_default (e_sourceHandle edge) []), em_to = f_name targetField,
                          em_type = DirectM, em_value = None, em_if = None, em_then = None,
                          em_else = None, em_map = None, em_transform = None\<rparr>)]) \<and>
         (targetNode \<in> set ns \<and> n_type targetNode = Some ''target'' \<and>
          targetField \<in> set (target_fields targetNode) \<and>
          edge \<in> set (incoming_edges es targetNode targetField) \<longrightarrow>
            \<lparr>em_from = Some (or_default (e_sourceHandle edge) []), em_to = f_name targetField,
             em_type = DirectM, em_value = None, em_if = None, em_then = None,
             em_else = None, em_map = None, em_transform = None\<rparr>
              \<in> set (ec_mappings (fst (exportExecutionMapping ns es name))))"
proof (intro conjI impI)
  let ?m = "\<lparr>em_from = Some (or_default (e_sourceHandle edge) []), em_to = f_name targetField,
             em_type = DirectM, em_value = None, em_if = None, em_then = None,
             em_else = None, em_map = None, em_transform = None\<rparr>"
  have em: "edge_mapping ns es targetField edge sourceNode = Some ?m"
    using assms(2,3) by (simp add: edge_mapping_def direct_mapping_def Let_def)
  then show "process_edge ns es targetField st edge =
      (fst st @ [?m], snd st @ [(Log, ProcessingEdgeFrom (Some ''source'') (f_name targetField)),
                                (Log, GeneratedMapping ?m)])"
    using assms(1,2) by (simp add: process_edge_def Let_def)
  assume a: "targetNode \<in> set ns \<and> n_type targetNode = Some ''target'' \<and>
          targetField \<in> set (target_fields targetNode) \<and>
          edge \<in> set (incoming_edges es targetNode targetField)"
  have er: "edge_result ns es targetField edge = Some ?m"
    using assms(1) em by (simp add: edge_result_def)
  have "?m \<in> set (List.map_filter (edge_result ns es targetField) (incoming_edges es targetNode targetField))"
    using a er by (intro map_filter_mem[where x = edge]) auto
  with a show "?m \<in> set (ec_mappings (fst (exportExecutionMapping ns es name)))"
    unfolding export_mappings by auto
qed

text \<open>
  The source node \<^verbatim>\<open>s1\<close> has no field with the id \<^verbatim>\<open>zz\<close>: the edge with that handle is exported
  with \<^verbatim>\<open>from\<close> equal to \<^verbatim>\<open>zz\<close>, the edge with no handle with the empty string.
\<close>

theorem unmatched_handle_falls_back_witness:
  "find_node sample_nodes (e_source (sample_edge ''e3'' ''s1'' (Some ''zz'') ''t1'' ''f1''))
     = Some (sample_node ''s1'' ''source'' [sample_field ''a1'' ''amount'']) \<and>
   field_by_handle (n_data (sample_node ''s1'' ''source'' [sample_field ''a1'' ''amount'']))
     (e_sourceHandle (sample_edge ''e3'' ''s1'' (Some ''zz'') ''t1'' ''f1'')) = None \<and>
   ec_mappings (fst (exportExecutionMapping sample_nodes
      [sample_edge ''e3'' ''s1'' (Some ''zz'') ''t1'' ''f1'', sample_edge ''e4'' ''s1'' None ''t1'' ''f2''] ''m''))
     = [direct_to ''zz'' ''total'', direct_to [] ''paid'']"
proof -
  have h: "find_node sample_nodes (e_source (sample_edge ''e3'' ''s1'' (Some ''zz'') ''t1'' ''f1''))
             = Some (sample_node ''s1'' ''source'' [sample_field ''a1'' ''amount''])"
    "n_type (sample_node ''s1'' ''source'' [sample_field ''a1'' ''amount'']) = Some ''source''"
    "field_by_handle (n_data (sample_node ''s1'' ''source'' [sample_field ''a1'' ''amount'']))
       (e_sourceHandle (sample_edge ''e3'' ''s1'' (Some ''zz'') ''t1'' ''f1'')) = None"
    by (simp_all add: find_node_def sample_nodes_def sample_node_def sample_edge_def
        field_by_handle_def sample_field_def no_data_def)
  show ?thesis
    using h unmatched_handle_falls_back [OF h, of
        "[sample_edge ''e3'' ''s1'' (Some ''zz'') ''t1'' ''f1'', sample_edge ''e4'' ''s1'' None ''t1'' ''f2'']"
        "sample_field ''f1'' ''total''" "([], [])"
        "sample_node ''t1'' ''target'' [sample_field ''f1'' ''total'', sample_field ''f2'' ''paid'']" "''m''"]
    by (simp add: exportExecutionMapping_def process_target_def process_field_def process_edge_def
        incoming_edges_def target_fields_def edge_mapping_def direct_mapping_def field_by_handle_def
        find_node_def sample_nodes_def sample_node_def sample_edge_def sample_field_def no_data_def
        or_default_def direct_to_def unknown_origin_def edge_result_def Let_def)
qed

section \<open>Properties of the UI export and import\<close>
























section \<open>Properties of the canvas importer\<close>









end
